theory Spec2Isabelle
  imports Complex_Main "HOL-Library.Sublist" "HOL-Library.AList"
begin

section \<open>JavaScript numbers and strings\<close>

text \<open>
  The components of \<^verbatim>\<open>src/components/Player.tsx\<close> compute with JavaScript numbers.
  A number is modelled as \<open>NaN\<close> or as a finite value \<open>Fin x\<close> with \<open>x\<close> an exact real:
  the rounding error of IEEE-754 doubles and the two infinities are outside the model.
  The one place where the model does not compute exactly is the length test of
  \<^verbatim>\<open>handleCreateClip\<close>, where the rounding of a subtraction decides the outcome: there the
  subtraction of doubles is a parameter.
  Every operation of the source that can produce \<open>NaN\<close> from finite operands
  (\<^verbatim>\<open>parseInt\<close> of a string with no digits, \<^verbatim>\<open>0 / 0\<close>) does so in the model, and \<open>NaN\<close>
  propagates through arithmetic, \<^verbatim>\<open>Math.min\<close> and \<^verbatim>\<open>Math.max\<close> and makes every comparison
  false, as in the language.
\<close>

datatype jsnum = NaN | Fin real

fun js_add :: "jsnum \<Rightarrow> jsnum \<Rightarrow> jsnum" where
  "js_add (Fin a) (Fin b) = Fin (a + b)"
| "js_add _ _ = NaN"

fun js_sub :: "jsnum \<Rightarrow> jsnum \<Rightarrow> jsnum" where
  "js_sub (Fin a) (Fin b) = Fin (a - b)"
| "js_sub _ _ = NaN"

fun js_mul :: "jsnum \<Rightarrow> jsnum \<Rightarrow> jsnum" where
  "js_mul (Fin a) (Fin b) = Fin (a * b)"
| "js_mul _ _ = NaN"

text \<open>
  The only division by zero the modelled code can perform is \<^verbatim>\<open>0 / 0\<close> (a pointer
  position on a track of width zero), which is \<open>NaN\<close>.
\<close>

fun js_div :: "jsnum \<Rightarrow> jsnum \<Rightarrow> jsnum" where
  "js_div (Fin a) (Fin b) = (if b = 0 then NaN else Fin (a / b))"
| "js_div _ _ = NaN"

fun js_min :: "jsnum \<Rightarrow> jsnum \<Rightarrow> jsnum" where
  "js_min (Fin a) (Fin b) = Fin (min a b)"
| "js_min _ _ = NaN"

fun js_max :: "jsnum \<Rightarrow> jsnum \<Rightarrow> jsnum" where
  "js_max (Fin a) (Fin b) = Fin (max a b)"
| "js_max _ _ = NaN"

fun js_lt :: "jsnum \<Rightarrow> jsnum \<Rightarrow> bool" where
  "js_lt (Fin a) (Fin b) = (a < b)"
| "js_lt _ _ = False"

fun js_ge :: "jsnum \<Rightarrow> jsnum \<Rightarrow> bool" where
  "js_ge (Fin a) (Fin b) = (b \<le> a)"
| "js_ge _ _ = False"

fun js_abs :: "jsnum \<Rightarrow> jsnum" where
  "js_abs (Fin a) = Fin \<bar>a\<bar>"
| "js_abs NaN = NaN"

text \<open>\<^verbatim>\<open>a || b\<close> on numbers: \<open>NaN\<close> and zero are falsy.\<close>

fun js_or :: "jsnum \<Rightarrow> jsnum \<Rightarrow> jsnum" where
  "js_or NaN b = b"
| "js_or (Fin a) b = (if a = 0 then b else Fin a)"

text \<open>\<^verbatim>\<open>Math.floor\<close>, and \<^verbatim>\<open>Math.round\<close>, which rounds a tie towards plus infinity.\<close>

definition math_floor :: "real \<Rightarrow> int" where
  "math_floor x = \<lfloor>x\<rfloor>"

definition math_round :: "real \<Rightarrow> int" where
  "math_round x = \<lfloor>x + 1 / 2\<rfloor>"

text \<open>The remainder operator \<^verbatim>\<open>a % b\<close>: the quotient is truncated towards zero, so
  the result has the sign of the dividend.\<close>

definition js_trunc :: "real \<Rightarrow> int" where
  "js_trunc x = (if 0 \<le> x then \<lfloor>x\<rfloor> else \<lceil>x\<rceil>)"

definition js_rem :: "real \<Rightarrow> real \<Rightarrow> real" where
  "js_rem a b = a - b * of_int (js_trunc (a / b))"

text \<open>
  \<^verbatim>\<open>roundToPrecision(value, 3)\<close> (lines 48-51):
  \<^verbatim>\<open>Math.round(value * Math.pow(10, 3)) / Math.pow(10, 3)\<close>.
\<close>

definition round3 :: "real \<Rightarrow> real" where
  "round3 v = of_int (math_round (v * 1000)) / 1000"

fun roundToPrecision :: "jsnum \<Rightarrow> jsnum" where
  "roundToPrecision NaN = NaN"
| "roundToPrecision (Fin v) = Fin (round3 v)"

subsection \<open>Strings\<close>

text \<open>
  Strings are lists of characters. The source splits on \<^verbatim>\<open>':'\<close> and \<^verbatim>\<open>'.'\<close>, pads with
  \<^verbatim>\<open>'0'\<close> and reads decimal or hexadecimal digits, all of them ASCII.
\<close>

definition digit_char :: "nat \<Rightarrow> char" where
  "digit_char d = ''0123456789'' ! (d mod 10)"

fun string_of_nat :: "nat \<Rightarrow> string" where
  "string_of_nat n =
     (if n < 10 then [digit_char n] else string_of_nat (n div 10) @ [digit_char (n mod 10)])"

declare string_of_nat.simps [simp del]

text \<open>\<^verbatim>\<open>Number.prototype.toString\<close> of an integer below \<open>10\<^sup>2\<^sup>1\<close> in absolute value.\<close>

definition string_of_int :: "int \<Rightarrow> string" where
  "string_of_int i = (if i < 0 then CHR ''-'' # string_of_nat (nat (- i)) else string_of_nat (nat i))"

definition padStart :: "nat \<Rightarrow> char \<Rightarrow> string \<Rightarrow> string" where
  "padStart n c s = replicate (n - length s) c @ s"

definition padEnd :: "nat \<Rightarrow> char \<Rightarrow> string \<Rightarrow> string" where
  "padEnd n c s = s @ replicate (n - length s) c"

text \<open>\<^verbatim>\<open>s.split(c)\<close> for a one-character separator: never the empty list.\<close>

fun split_on :: "char \<Rightarrow> string \<Rightarrow> string list" where
  "split_on c [] = [[]]"
| "split_on c (x # xs) =
     (if x = c then [] # split_on c xs
      else (case split_on c xs of [] \<Rightarrow> [[x]] | p # ps \<Rightarrow> (x # p) # ps))"

text \<open>
  \<^verbatim>\<open>parseInt(s)\<close> with no radix argument: leading white space is skipped, one sign is
  read, a prefix \<^verbatim>\<open>0x\<close> or \<^verbatim>\<open>0X\<close> selects radix 16, and the longest prefix of digits of
  the radix is the value; with no digit the result is \<open>NaN\<close>. White space is the ASCII
  white space (space, tab, line feed, vertical tab, form feed, carriage return); the
  Unicode space characters that \<^verbatim>\<open>parseInt\<close> skips as well are not modelled.
\<close>

definition is_space :: "char \<Rightarrow> bool" where
  "is_space c = (c \<in> set [CHR '' '', CHR 0x09, CHR 0x0A, CHR 0x0B, CHR 0x0C, CHR 0x0D])"

definition digit_val :: "char \<Rightarrow> nat option" where
  "digit_val c = map_of
     (zip ''0123456789abcdef'' [0 ..< 16] @ zip ''ABCDEF'' [10 ..< 16]) c"

definition is_digit :: "nat \<Rightarrow> char \<Rightarrow> bool" where
  "is_digit radix c = (case digit_val c of None \<Rightarrow> False | Some d \<Rightarrow> d < radix)"

definition digits_value :: "nat \<Rightarrow> string \<Rightarrow> nat" where
  "digits_value radix ds =
     foldl (\<lambda>acc c. acc * radix + (case digit_val c of None \<Rightarrow> 0 | Some d \<Rightarrow> d)) 0 ds"

definition parseInt :: "string \<Rightarrow> jsnum" where
  "parseInt s =
     (let s1 = dropWhile is_space s;
          negative = (take 1 s1 = ''-'');
          s2 = (if take 1 s1 = ''-'' \<or> take 1 s1 = ''+'' then drop 1 s1 else s1);
          hex = (take 2 s2 = ''0x'' \<or> take 2 s2 = ''0X'');
          radix = (if hex then 16 else 10);
          s3 = (if hex then drop 2 s2 else s2);
          ds = takeWhile (is_digit radix) s3
      in if ds = [] then NaN
         else if negative then Fin (- of_nat (digits_value radix ds))
         else Fin (of_nat (digits_value radix ds)))"

text \<open>A non-empty string of decimal digits, as \<open>string_of_nat\<close> prints.\<close>

definition decimal :: "string \<Rightarrow> bool" where
  "decimal ds = (ds \<noteq> [] \<and> set ds \<subseteq> set ''0123456789'')"

section \<open>TimeCodec: \<^verbatim>\<open>formatTime\<close> and \<^verbatim>\<open>parseTimeString\<close>\<close>

text \<open>
  \<^verbatim>\<open>formatTime\<close> (lines 53-61). \<^verbatim>\<open>isFinite(t)\<close> is false exactly for \<open>NaN\<close> in the model.
\<close>

fun formatTime :: "jsnum \<Rightarrow> string" where
  "formatTime NaN = ''0:00.000''"
| "formatTime (Fin t) =
     (let mins = math_floor (t / 60);
          secs = math_floor (js_rem t 60);
          ms = math_round (js_rem t 1 * 1000)
      in string_of_int mins @ '':'' @ padStart 2 CHR ''0'' (string_of_int secs)
           @ ''.'' @ padStart 3 CHR ''0'' (string_of_int ms))"

text \<open>
  \<^verbatim>\<open>parseTimeString\<close> (lines 63-78). Nothing in the body throws, so the \<^verbatim>\<open>catch\<close> branch
  is never taken. \<^verbatim>\<open>secsParts[1]\<close> is \<^verbatim>\<open>undefined\<close> when the seconds part has no
  \<^verbatim>\<open>'.'\<close>, and the empty string is falsy as well.
\<close>

definition parseTimeString :: "string \<Rightarrow> jsnum" where
  "parseTimeString timeStr =
     (case split_on CHR '':'' timeStr of
        [p0, p1] \<Rightarrow>
          (let mins = js_or (parseInt p0) (Fin 0);
               secsParts = split_on CHR ''.'' p1;
               secs = (case secsParts of
                         s0 # _ \<Rightarrow> js_or (parseInt s0) (Fin 0)
                       | [] \<Rightarrow> Fin 0);
               ms = (case secsParts of
                       _ # f # _ \<Rightarrow>
                         if f = [] then Fin 0 else parseInt (take 3 (padEnd 3 CHR ''0'' f))
                     | _ \<Rightarrow> Fin 0);
               totalSeconds = js_add (js_add (js_mul mins (Fin 60)) secs) (js_div ms (Fin 1000))
           in roundToPrecision totalSeconds)
      | _ \<Rightarrow> Fin 0)"

section \<open>The Player component: trim range, drag and playback\<close>

text \<open>
  The state of one mounted \<^verbatim>\<open>Player\<close> (lines 18-46): the refs and the React state the
  handlers read and write. \<^verbatim>\<open>videoRef.current\<close> is the playback surface; its position is
  always finite, because assigning a non-finite value to \<^verbatim>\<open>currentTime\<close> raises a
  \<^verbatim>\<open>TypeError\<close> and leaves it unchanged. \<^verbatim>\<open>scrubberRef.current\<close> is the timeline track, of
  which the handlers read the bounding rectangle. Every handler is modelled on the state
  of the latest render (the drag effect re-attaches its listeners whenever one of
  \<^verbatim>\<open>dragType\<close>, \<^verbatim>\<open>duration\<close>, \<^verbatim>\<open>startPoint\<close>, \<^verbatim>\<open>endPoint\<close> changes).
\<close>

record video_element =
  v_currentTime :: real
  v_paused :: bool

record rect =
  rect_left :: real
  rect_width :: real

datatype drag_type = DragStart | DragEnd | DragScrubber

record player =
  videoRef :: "video_element option"
  scrubberRef :: "rect option"
  isDraggingRef :: bool
  currentTimeRef :: jsnum
  isPlaying :: bool
  currentTime :: jsnum
  duration :: jsnum
  startPoint :: jsnum
  endPoint :: jsnum
  dragType :: "drag_type option"

text \<open>
  The three statements with which the handlers seek:
  \<^verbatim>\<open>videoRef.current.currentTime = t; currentTimeRef.current = t; setCurrentTime(t)\<close>.
  With \<open>t = NaN\<close> the first assignment raises a \<^verbatim>\<open>TypeError\<close>: the result is \<open>None\<close>, the
  handler stops at this statement, and what it wrote before stays.
\<close>

fun seek :: "jsnum \<Rightarrow> video_element \<Rightarrow> player \<Rightarrow> player option" where
  "seek NaN v s = None"
| "seek (Fin t) v s =
     Some (s\<lparr>videoRef := Some (v\<lparr>v_currentTime := t\<rparr>), currentTimeRef := Fin t, currentTime := Fin t\<rparr>)"

text \<open>\<^verbatim>\<open>checkPlaybackBounds\<close> (lines 223-235), run every 100 ms by the interval that the
  effect of lines 220-239 installs while \<^verbatim>\<open>isPlaying\<close> holds.\<close>

definition checkPlaybackBounds :: "player \<Rightarrow> player" where
  "checkPlaybackBounds s =
     (case videoRef s of
        None \<Rightarrow> s
      | Some v \<Rightarrow>
          if isDraggingRef s then s
          else if js_ge (Fin (v_currentTime v)) (endPoint s) then
            (let v' = v\<lparr>v_paused := True\<rparr>;
                 s1 = s\<lparr>videoRef := Some v'\<rparr>
             in case seek (startPoint s) v' s1 of
                  None \<Rightarrow> s1
                | Some s2 \<Rightarrow> s2\<lparr>isPlaying := False\<rparr>)
          else s)"

text \<open>The interval tick itself: the callback exists only while \<^verbatim>\<open>isPlaying\<close>.\<close>

definition playbackTick :: "player \<Rightarrow> player" where
  "playbackTick s = (if isPlaying s then checkPlaybackBounds s else s)"

text \<open>The \<^verbatim>\<open>onEnded\<close> handler of the video element (lines 559-566).\<close>

definition onEnded :: "player \<Rightarrow> player" where
  "onEnded s =
     (let s1 = s\<lparr>isPlaying := False\<rparr>
      in case videoRef s1 of
           None \<Rightarrow> s1
         | Some v \<Rightarrow> (case seek (startPoint s) v s1 of None \<Rightarrow> s1 | Some s2 \<Rightarrow> s2))"

text \<open>\<^verbatim>\<open>handleStartDrag(type)\<close> (lines 510-520), the mouse-down handler of the three handles.\<close>

definition handleStartDrag :: "drag_type \<Rightarrow> player \<Rightarrow> player" where
  "handleStartDrag ty s =
     (let s1 = (case videoRef s of
                  Some v \<Rightarrow>
                    if isPlaying s then s\<lparr>videoRef := Some (v\<lparr>v_paused := True\<rparr>), isPlaying := False\<rparr>
                    else s
                | None \<Rightarrow> s)
      in s1\<lparr>dragType := Some ty\<rparr>)"

text \<open>The body of the drag effect (lines 272-279): it runs after the render that follows
  a change of \<^verbatim>\<open>dragType\<close>, and attaches \<^verbatim>\<open>handleMouseMove\<close> and \<^verbatim>\<open>handleMouseUp\<close> only
  when a drag type is set.\<close>

definition dragEffect :: "player \<Rightarrow> player" where
  "dragEffect s = s\<lparr>isDraggingRef := (dragType s \<noteq> None)\<rparr>"

text \<open>Lines 284-287 of \<^verbatim>\<open>handleMouseMove\<close>: the pointer position as a time.\<close>

definition pointerTime :: "real \<Rightarrow> rect \<Rightarrow> jsnum \<Rightarrow> jsnum" where
  "pointerTime clientX r dur =
     (let x = max 0 (min (clientX - rect_left r) (rect_width r));
          percentage = js_div (Fin x) (Fin (rect_width r))
      in roundToPrecision (js_mul percentage dur))"

text \<open>\<^verbatim>\<open>handleMouseMove\<close> (lines 281-304). Without a drag type the listener is not attached.\<close>

definition handleMouseMove :: "real \<Rightarrow> player \<Rightarrow> player" where
  "handleMouseMove clientX s =
     (case (scrubberRef s, videoRef s) of
        (Some r, Some v) \<Rightarrow>
          (let newTime = pointerTime clientX r (duration s)
           in case dragType s of
                None \<Rightarrow> s
              | Some DragStart \<Rightarrow>
                  (let clampedStart = js_max (Fin 0) (js_min newTime (js_sub (endPoint s) (Fin (1 / 10))));
                       s1 = s\<lparr>startPoint := clampedStart\<rparr>
                   in case seek clampedStart v s1 of None \<Rightarrow> s1 | Some s2 \<Rightarrow> s2)
              | Some DragEnd \<Rightarrow>
                  (let clampedEnd = js_max (js_add (startPoint s) (Fin (1 / 10))) (js_min newTime (duration s))
                   in s\<lparr>endPoint := clampedEnd\<rparr>)
              | Some DragScrubber \<Rightarrow>
                  (let clampedTime = js_max (startPoint s) (js_min newTime (endPoint s))
                   in case seek clampedTime v s of None \<Rightarrow> s | Some s2 \<Rightarrow> s2))
      | _ \<Rightarrow> s)"

text \<open>\<^verbatim>\<open>handleMouseUp\<close> (lines 306-310).\<close>

definition handleMouseUp :: "player \<Rightarrow> player" where
  "handleMouseUp s = s\<lparr>dragType := None, isDraggingRef := False\<rparr>"

text \<open>\<^verbatim>\<open>handleTimeUpdate\<close> (lines 345-354), the handler of the surface's position events.\<close>

definition handleTimeUpdate :: "player \<Rightarrow> player" where
  "handleTimeUpdate s =
     (case videoRef s of
        None \<Rightarrow> s
      | Some v \<Rightarrow>
          if isDraggingRef s then s
          else (let newTime = roundToPrecision (Fin (v_currentTime v))
                in if js_lt (js_abs (js_sub newTime (currentTimeRef s))) (Fin (5 / 100)) then s
                   else s\<lparr>currentTimeRef := newTime, currentTime := newTime\<rparr>))"

text \<open>
  The \<^verbatim>\<open>onChange\<close> handlers of the Start and End text inputs (lines 838-847 and 858-861).
  Both inputs are disabled while \<^verbatim>\<open>duration\<close> is falsy, so no change event reaches them.
\<close>

definition falsy :: "jsnum \<Rightarrow> bool" where
  "falsy n = (n = NaN \<or> n = Fin 0)"

definition onChangeStart :: "string \<Rightarrow> player \<Rightarrow> player" where
  "onChangeStart txt s =
     (if falsy (duration s) then s
      else (let newTime = parseTimeString txt;
                clampedTime = js_min newTime (js_sub (endPoint s) (Fin (1 / 10)));
                s1 = s\<lparr>startPoint := clampedTime\<rparr>
            in case videoRef s1 of
                 None \<Rightarrow> s1
               | Some v \<Rightarrow> (case seek clampedTime v s1 of None \<Rightarrow> s1 | Some s2 \<Rightarrow> s2)))"

definition onChangeEnd :: "string \<Rightarrow> player \<Rightarrow> player" where
  "onChangeEnd txt s =
     (if falsy (duration s) then s
      else (let newTime = parseTimeString txt
            in s\<lparr>endPoint := js_max newTime (js_add (startPoint s) (Fin (1 / 10)))\<rparr>))"

text \<open>
  The events of a drag gesture, of the surface and of the text fields, in the order the
  browser delivers them. A mouse-down on a handle is a discrete event: React renders and
  runs the drag effect before the next event is handled, so the step of \<open>StartDrag\<close> is
  the handler followed by the effect. The listeners for mouse-move and mouse-up are
  attached by that effect and removed when the drag type is cleared, so these two events
  reach their handlers only while \<^verbatim>\<open>isDraggingRef\<close> is set.
\<close>

datatype player_event =
    StartDrag drag_type
  | MouseMove real
  | MouseUp
  | TimeUpdate
  | Tick
  | Ended
  | EditStart string
  | EditEnd string

fun player_step :: "player_event \<Rightarrow> player \<Rightarrow> player" where
  "player_step (StartDrag ty) s = dragEffect (handleStartDrag ty s)"
| "player_step (MouseMove x) s = (if isDraggingRef s then handleMouseMove x s else s)"
| "player_step MouseUp s = (if isDraggingRef s then handleMouseUp s else s)"
| "player_step TimeUpdate s = handleTimeUpdate s"
| "player_step Tick s = playbackTick s"
| "player_step Ended s = onEnded s"
| "player_step (EditStart txt) s = onChangeStart txt s"
| "player_step (EditEnd txt) s = onChangeEnd txt s"

definition player_run :: "player_event list \<Rightarrow> player \<Rightarrow> player" where
  "player_run evs s = fold player_step evs s"

subsection \<open>The trim range invariant\<close>

text \<open>\<open>0 \<le> startTime \<le> endTime - 0.1 \<le> duration\<close>, all three finite.\<close>

definition trim_invariant :: "player \<Rightarrow> bool" where
  "trim_invariant s =
     (case (startPoint s, endPoint s, duration s) of
        (Fin a, Fin b, Fin d) \<Rightarrow> 0 \<le> a \<and> a \<le> b - 1 / 10 \<and> b - 1 / 10 \<le> d
      | _ \<Rightarrow> False)"

text \<open>The clamp of \<open>t\<close> to the interval from \<open>lo\<close> to \<open>hi\<close>, in the words of the
  specification: \<open>t\<close> itself inside the interval, the nearer bound outside.\<close>

definition clamp_to :: "real \<Rightarrow> real \<Rightarrow> real \<Rightarrow> real" where
  "clamp_to lo hi t = (if t < lo then lo else if hi < t then hi else t)"

subsection \<open>ClipFactory: \<^verbatim>\<open>handleCreateClip\<close>\<close>

record video_asset =
  video_id :: string
  video_name :: string
  video_url :: string
  fullPath :: "string option"

record clip =
  clip_id :: string
  sourceVideoId :: string
  clip_name :: string
  startTime :: jsnum
  endTime :: jsnum

text \<open>The three alerts of \<^verbatim>\<open>handleCreateClip\<close>, under the names the specification gives
  them: no video chosen, start not before end, clip shorter than 0.1 s.\<close>

datatype validation_error = NoAssetSelected | InvalidOrder | TooShort

text \<open>
  \<^verbatim>\<open>handleCreateClip\<close> (lines 465-492) up to the call of \<^verbatim>\<open>onAddClip\<close>: the checks in the
  order of the source, then the descriptor. \<open>uuid\<close> is the result of
  \<^verbatim>\<open>crypto.randomUUID()\<close>.

  Line 476, \<^verbatim>\<open>endPoint - startPoint < 0.1\<close>, subtracts two doubles and compares the rounded
  difference with the threshold, and the rounding decides the outcome: for the range from
  117.9 to 118, which the drag handler stores, the doubles give
  \<^verbatim>\<open>118 - 117.9 = 0.09999999999999432\<close> and the range is refused. So this test is not
  modelled with the exact difference: the subtraction of two finite doubles is the
  parameter \<open>dsub\<close>: a statement about \<open>createClip\<close> holds for every \<open>dsub\<close>, or names what it
  assumes of \<open>dsub\<close>. With a \<open>NaN\<close> operand the difference is \<open>NaN\<close>, whatever the
  rounding. The double \<^verbatim>\<open>0.1\<close> is the least double above the real \<open>1 / 10\<close>, so a double
  is below the one exactly when it is below the other.
\<close>

fun js_sub_by :: "(real \<Rightarrow> real \<Rightarrow> real) \<Rightarrow> jsnum \<Rightarrow> jsnum \<Rightarrow> jsnum" where
  "js_sub_by dsub (Fin a) (Fin b) = Fin (dsub a b)"
| "js_sub_by dsub _ _ = NaN"

definition createClip ::
  "(real \<Rightarrow> real \<Rightarrow> real) \<Rightarrow> video_asset option \<Rightarrow> jsnum \<Rightarrow> jsnum \<Rightarrow> string \<Rightarrow> validation_error + clip" where
  "createClip dsub video sp ep uuid =
     (case video of
        None \<Rightarrow> Inl NoAssetSelected
      | Some a \<Rightarrow>
          if js_ge sp ep then Inl InvalidOrder
          else if js_lt (js_sub_by dsub ep sp) (Fin (1 / 10)) then Inl TooShort
          else Inr \<lparr>clip_id = uuid,
                    sourceVideoId = video_id a,
                    clip_name = video_name a @ '' ('' @ formatTime sp @ ''-'' @ formatTime ep @ '')'',
                    startTime = roundToPrecision sp,
                    endTime = roundToPrecision ep\<rparr>)"

text \<open>
  The whole handler, with its effects: a failed check raises an alert and returns; a
  descriptor is handed to \<^verbatim>\<open>onAddClip\<close>, which the model records as an append to the
  consumer's timeline. The trim state itself is only read. The button that calls the
  handler is disabled while \<^verbatim>\<open>!duration || startPoint >= endPoint\<close> (line 870).
\<close>

record clip_host =
  timeline :: "clip list"
  clip_alerts :: "validation_error list"

definition createClipDisabled :: "player \<Rightarrow> bool" where
  "createClipDisabled s = (falsy (duration s) \<or> js_ge (startPoint s) (endPoint s))"

definition handleCreateClip ::
  "(real \<Rightarrow> real \<Rightarrow> real) \<Rightarrow> video_asset option \<Rightarrow> string \<Rightarrow> player \<Rightarrow> clip_host \<Rightarrow> clip_host" where
  "handleCreateClip dsub video uuid s h =
     (case createClip dsub video (startPoint s) (endPoint s) uuid of
        Inl e \<Rightarrow> h\<lparr>clip_alerts := clip_alerts h @ [e]\<rparr>
      | Inr c \<Rightarrow> h\<lparr>timeline := timeline h @ [c]\<rparr>)"

section \<open>The VideoLibrary component: job polling and thumbnails\<close>

text \<open>
  \<^verbatim>\<open>OPTIMIZE_TIMEOUT\<close> and \<^verbatim>\<open>POLL_INTERVAL\<close> (lines 905-907), in milliseconds, and the page
  size \<^verbatim>\<open>ITEMS_PER_PAGE\<close> (line 901).
\<close>

definition OPTIMIZE_TIMEOUT :: nat where
  "OPTIMIZE_TIMEOUT = 5 * 60 * 1000"

definition POLL_INTERVAL :: nat where
  "POLL_INTERVAL = 3000"

definition ITEMS_PER_PAGE :: nat where
  "ITEMS_PER_PAGE = 12"

text \<open>
  An entry of \<^verbatim>\<open>pollingTasksRef\<close> (line 926). The field \<^verbatim>\<open>retryCount\<close> is attached by the
  error path of \<^verbatim>\<open>checkStatus\<close> and is \<^verbatim>\<open>undefined\<close> before.
\<close>

record polling_task =
  timeoutId :: nat
  aborted :: bool
  retryCount :: "nat option"

text \<open>What one call of \<^verbatim>\<open>pollOptimizeTask\<close> closes over: its two arguments and the
  \<^verbatim>\<open>startTime\<close> of line 1070.\<close>

record job =
  job_taskId :: string
  job_videoId :: string
  job_startTime :: nat

text \<open>
  The alerts of the polling code: the timeout (line 1102), completion (line 1120),
  failure with the server's reason or "unknown" (line 1124), and the failed status query
  (line 1151); and the two refusals of \<^verbatim>\<open>handleDelete\<close>, for an HLS file (line 1244) and for
  a video that is being optimized (line 1250).
\<close>

datatype notice =
    TimeoutNotice
  | CompletedNotice
  | FailedNotice "string option"
  | QueryFailedNotice
  | HlsNotice
  | OptimizingNotice

text \<open>
  The outcome of the awaited request of lines 1108-1114. Everything that throws inside
  the \<^verbatim>\<open>try\<close> block (a rejected \<^verbatim>\<open>fetch\<close>, a response that is not \<^verbatim>\<open>ok\<close>, a body that is
  not JSON) reaches the \<^verbatim>\<open>catch\<close> block: \<open>RequestFailed\<close>. Otherwise the body carries a
  status string and an optional error text.
\<close>

datatype response = RequestFailed | TaskData string "string option"

text \<open>
  The state of one mounted \<^verbatim>\<open>VideoLibrary\<close>. \<^verbatim>\<open>pollingTasksRef\<close> is a \<^verbatim>\<open>Map\<close>, kept as an
  association list in insertion order. \<open>timers\<close> are the pending \<^verbatim>\<open>window.setTimeout\<close>
  calls: the identifier, the time at which the callback is due and the closure it runs;
  \<open>nextTimer\<close> is the next identifier (identifiers are positive). \<open>clock\<close> is
  \<^verbatim>\<open>Date.now()\<close>. \<open>inflight\<close> are the status requests issued and not yet answered.
  \<open>videos\<close> and \<open>currentPage\<close> decide which cards are rendered; \<open>videoCardRefs\<close> holds the
  keys of the \<^verbatim>\<open>Map\<close> of card elements. \<open>thumbnailCache\<close> is the cache of the module
  \<^verbatim>\<open>./thumbnail\<close>, keyed by URL, and \<open>thumbRequests\<close> are the calls of
  \<^verbatim>\<open>getThumbnailWithCache\<close> not yet settled. \<open>deleted\<close> records the calls of the \<^verbatim>\<open>onDelete\<close>
  prop. \<open>mounted\<close> is cleared by React when the component is unmounted; the refs, the
  timers and the outstanding requests outlive it.
\<close>

record library =
  mounted :: bool
  videos :: "video_asset list"
  currentPage :: nat
  selectedVideoId :: "string option"
  thumbnails :: "(string \<times> string) list"
  loadingThumbnails :: "string set"
  requestedThumbnails :: "string set"
  videoCardRefs :: "string list"
  thumbnailCache :: "string set"
  optimizingVideos :: "string set"
  pollingTasks :: "(string \<times> polling_task) list"
  timers :: "(nat \<times> nat \<times> job) list"
  nextTimer :: nat
  clock :: nat
  inflight :: "job list"
  thumbRequests :: "video_asset list"
  alerts :: "notice list"
  deleted :: "video_asset list"

text \<open>A setter of React state (\<^verbatim>\<open>setOptimizingVideos\<close>, \<^verbatim>\<open>setThumbnails\<close>, ...): React drops
  the update once the component is unmounted.\<close>

definition setState :: "(library \<Rightarrow> library) \<Rightarrow> library \<Rightarrow> library" where
  "setState f s = (if mounted s then f s else s)"

subsection \<open>JobPoller: \<^verbatim>\<open>pollOptimizeTask\<close>\<close>

text \<open>\<^verbatim>\<open>window.setTimeout(checkStatus, delay)\<close> and \<^verbatim>\<open>clearTimeout(id)\<close>.\<close>

definition setTimeout :: "job \<Rightarrow> nat \<Rightarrow> library \<Rightarrow> nat \<times> library" where
  "setTimeout j delay s =
     (nextTimer s,
      s\<lparr>timers := timers s @ [(nextTimer s, clock s + delay, j)], nextTimer := Suc (nextTimer s)\<rparr>)"

definition clearTimeout :: "nat \<Rightarrow> library \<Rightarrow> library" where
  "clearTimeout tid s = s\<lparr>timers := AList.delete tid (timers s)\<rparr>"

text \<open>\<^verbatim>\<open>cleanup\<close> (lines 1075-1087). A \<^verbatim>\<open>timeoutId\<close> of zero is falsy.\<close>

definition cleanup :: "job \<Rightarrow> library \<Rightarrow> library" where
  "cleanup j s =
     (let s1 = (case map_of (pollingTasks s) (job_taskId j) of
                  Some task \<Rightarrow> if timeoutId task \<noteq> 0 then clearTimeout (timeoutId task) s else s
                | None \<Rightarrow> s);
          s2 = s1\<lparr>pollingTasks := AList.delete (job_taskId j) (pollingTasks s1)\<rparr>
      in setState (\<lambda>s. s\<lparr>optimizingVideos := optimizingVideos s - {job_videoId j}\<rparr>) s2)"

text \<open>
  \<^verbatim>\<open>checkStatus\<close> up to its \<^verbatim>\<open>await\<close> (lines 1089-1108): the abort check, the timeout
  check, and the status request.
\<close>

definition checkStatus :: "job \<Rightarrow> library \<Rightarrow> library" where
  "checkStatus j s =
     (case map_of (pollingTasks s) (job_taskId j) of
        None \<Rightarrow> cleanup j s
      | Some task \<Rightarrow>
          if aborted task then cleanup j s
          else if int (clock s) - int (job_startTime j) > int OPTIMIZE_TIMEOUT then
            cleanup j (s\<lparr>alerts := alerts s @ [TimeoutNotice]\<rparr>)
          else s\<lparr>inflight := inflight s @ [j]\<rparr>)"

text \<open>
  The continuation of \<^verbatim>\<open>checkStatus\<close> after the \<^verbatim>\<open>await\<close> (lines 1110-1154), for each
  outcome of the request. The value read at line 1140 is \<open>retry_counter\<close>.
\<close>

definition retry_counter :: "library \<Rightarrow> string \<Rightarrow> nat" where
  "retry_counter s taskId =
     (case map_of (pollingTasks s) taskId of
        None \<Rightarrow> 0
      | Some task \<Rightarrow> (case retryCount task of None \<Rightarrow> 0 | Some n \<Rightarrow> n))"

definition set_timeoutId :: "string \<Rightarrow> nat \<Rightarrow> library \<Rightarrow> library" where
  "set_timeoutId taskId tid s =
     (case map_of (pollingTasks s) taskId of
        None \<Rightarrow> s
      | Some task \<Rightarrow> s\<lparr>pollingTasks := AList.update taskId (task\<lparr>timeoutId := tid\<rparr>) (pollingTasks s)\<rparr>)"

fun checkStatus_resume :: "job \<Rightarrow> response \<Rightarrow> library \<Rightarrow> library" where
  "checkStatus_resume j (TaskData status err) s =
     (if status = ''completed'' then cleanup j (s\<lparr>alerts := alerts s @ [CompletedNotice]\<rparr>)
      else if status = ''failed'' then cleanup j (s\<lparr>alerts := alerts s @ [FailedNotice err]\<rparr>)
      else (case setTimeout j POLL_INTERVAL s of (tid, s1) \<Rightarrow> set_timeoutId (job_taskId j) tid s1))"
| "checkStatus_resume j RequestFailed s =
     (let n = retry_counter s (job_taskId j)
      in if n < 3 then
           (case map_of (pollingTasks s) (job_taskId j) of
              None \<Rightarrow> s
            | Some currentTask \<Rightarrow>
                (case setTimeout j (POLL_INTERVAL * 2) s of
                   (tid, s1) \<Rightarrow>
                     s1\<lparr>pollingTasks :=
                          AList.update (job_taskId j)
                            (currentTask\<lparr>retryCount := Some (n + 1), timeoutId := tid\<rparr>)
                            (pollingTasks s1)\<rparr>))
         else cleanup j (s\<lparr>alerts := alerts s @ [QueryFailedNotice]\<rparr>))"

text \<open>\<^verbatim>\<open>pollOptimizeTask\<close> (lines 1069-1159): the registration and the first check.\<close>

definition pollOptimizeTask :: "string \<Rightarrow> string \<Rightarrow> library \<Rightarrow> library" where
  "pollOptimizeTask taskId videoId s =
     (let j = \<lparr>job_taskId = taskId, job_videoId = videoId, job_startTime = clock s\<rparr>;
          s1 = s\<lparr>pollingTasks :=
                   AList.update taskId \<lparr>timeoutId = 0, aborted = False, retryCount = None\<rparr> (pollingTasks s)\<rparr>
      in checkStatus j s1)"

text \<open>
  The cleanup of the unmount effect (lines 932-943): every task is marked and its timer
  cleared, then the registry is emptied.
\<close>

definition abortTask :: "string \<times> polling_task \<Rightarrow> library \<Rightarrow> library" where
  "abortTask kt s =
     (let s1 = s\<lparr>pollingTasks := AList.update (fst kt) ((snd kt)\<lparr>aborted := True\<rparr>) (pollingTasks s)\<rparr>
      in if timeoutId (snd kt) \<noteq> 0 then clearTimeout (timeoutId (snd kt)) s1 else s1)"

definition markAborted :: "library \<Rightarrow> library" where
  "markAborted s = fold abortTask (pollingTasks s) s"

definition unmountCleanup :: "library \<Rightarrow> library" where
  "unmountCleanup s = (markAborted s)\<lparr>pollingTasks := []\<rparr>"

text \<open>What \<open>abortTask\<close> does to the pending timers: it cancels the timer that the task
  records.\<close>

definition cancelRecorded ::
    "string \<times> polling_task \<Rightarrow> (nat \<times> nat \<times> job) list \<Rightarrow> (nat \<times> nat \<times> job) list" where
  "cancelRecorded kt ts = (if timeoutId (snd kt) \<noteq> 0 then AList.delete (timeoutId (snd kt)) ts else ts)"

text \<open>Unmounting runs the cleanup of the effect and discards the React state.\<close>

definition unmount :: "library \<Rightarrow> library" where
  "unmount s = (unmountCleanup s)\<lparr>mounted := False\<rparr>"

text \<open>
  What can happen to a library after its jobs were started: the clock advances, a
  pending timer that is due fires (a cleared timer never does), an outstanding request
  is answered, or the component is unmounted.
\<close>

datatype library_event =
    Advance nat
  | Fire nat
  | Respond job response
  | Unmount

fun library_step :: "library_event \<Rightarrow> library \<Rightarrow> library" where
  "library_step (Advance d) s = s\<lparr>clock := clock s + d\<rparr>"
| "library_step (Fire tid) s =
     (case map_of (timers s) tid of
        None \<Rightarrow> s
      | Some (due, j) \<Rightarrow> if clock s < due then s else checkStatus j (clearTimeout tid s))"
| "library_step (Respond j r) s =
     (if j \<in> set (inflight s) then checkStatus_resume j r (s\<lparr>inflight := remove1 j (inflight s)\<rparr>)
      else s)"
| "library_step Unmount s = unmount s"

definition library_run :: "library_event list \<Rightarrow> library \<Rightarrow> library" where
  "library_run evs s = fold library_step evs s"

subsection \<open>LazyResourceLoader: thumbnails\<close>

text \<open>
  Modelled from the spec: \<^verbatim>\<open>clearThumbnailForVideo\<close> is imported from \<^verbatim>\<open>./thumbnail\<close>, which
  is not among the sources. The specification's \<^verbatim>\<open>invalidate(locator)\<close> removes the entry
  of the locator from the cache.
\<close>

definition clearThumbnailForVideo :: "string \<Rightarrow> library \<Rightarrow> library" where
  "clearThumbnailForVideo url s = s\<lparr>thumbnailCache := thumbnailCache s - {url}\<rparr>"

text \<open>\<^verbatim>\<open>thumbnails[id]\<close> as a condition: an absent entry and the empty string are falsy.\<close>

definition has_thumbnail :: "library \<Rightarrow> string \<Rightarrow> bool" where
  "has_thumbnail s vid = (case map_of (thumbnails s) vid of None \<Rightarrow> False | Some t \<Rightarrow> t \<noteq> [])"

text \<open>\<^verbatim>\<open>generateThumbnail\<close> up to its \<^verbatim>\<open>await\<close> (lines 960-975).\<close>

definition generateThumbnail :: "video_asset \<Rightarrow> library \<Rightarrow> library" where
  "generateThumbnail video s =
     (if has_thumbnail s (video_id video) \<or> video_id video \<in> loadingThumbnails s
           \<or> video_id video \<in> requestedThumbnails s
      then s
      else (let s1 = s\<lparr>requestedThumbnails := insert (video_id video) (requestedThumbnails s)\<rparr>;
                s2 = setState (\<lambda>s. s\<lparr>loadingThumbnails := insert (video_id video) (loadingThumbnails s)\<rparr>) s1
            in s2\<lparr>thumbRequests := thumbRequests s2 @ [video]\<rparr>))"

text \<open>
  The continuation of \<^verbatim>\<open>generateThumbnail\<close> (lines 980-995): \<open>Some t\<close> is the resolved
  thumbnail; \<open>None\<close> is \<^verbatim>\<open>null\<close> or a rejection, which the \<^verbatim>\<open>catch\<close> block only logs.
\<close>

definition generateThumbnail_resume :: "video_asset \<Rightarrow> string option \<Rightarrow> library \<Rightarrow> library" where
  "generateThumbnail_resume video result s =
     (let s1 = (case result of
                  Some t \<Rightarrow>
                    if t \<noteq> []
                    then setState (\<lambda>s. s\<lparr>thumbnails := AList.update (video_id video) t (thumbnails s)\<rparr>) s
                    else s
                | None \<Rightarrow> s)
      in setState (\<lambda>s. s\<lparr>loadingThumbnails := loadingThumbnails s - {video_id video}\<rparr>) s1)"

definition thumbnailSettled :: "video_asset \<Rightarrow> string option \<Rightarrow> library \<Rightarrow> library" where
  "thumbnailSettled video result s =
     (if video \<in> set (thumbRequests s)
      then generateThumbnail_resume video result (s\<lparr>thumbRequests := remove1 video (thumbRequests s)\<rparr>)
      else s)"

text \<open>
  Rendering (lines 946-951 and 1352-1367): the ref callback of every card of the
  current page registers the card under the video's id.
\<close>

definition paginatedVideos :: "library \<Rightarrow> video_asset list" where
  "paginatedVideos s =
     take ITEMS_PER_PAGE (drop ((currentPage s - 1) * ITEMS_PER_PAGE) (videos s))"

definition registerCard :: "string \<Rightarrow> library \<Rightarrow> library" where
  "registerCard vid s =
     (if vid \<in> set (videoCardRefs s) then s else s\<lparr>videoCardRefs := videoCardRefs s @ [vid]\<rparr>)"

definition renderCards :: "library \<Rightarrow> library" where
  "renderCards s = fold registerCard (map video_id (paginatedVideos s)) s"

text \<open>The page effect (lines 946 and 953-957).\<close>

definition totalPages :: "library \<Rightarrow> nat" where
  "totalPages s = (length (videos s) + ITEMS_PER_PAGE - 1) div ITEMS_PER_PAGE"

definition pageEffect :: "library \<Rightarrow> library" where
  "pageEffect s =
     (if currentPage s > totalPages s \<and> totalPages s > 0
      then setState (\<lambda>s. s\<lparr>currentPage := totalPages s\<rparr>) s else s)"

text \<open>
  The effect that drops stale entries (lines 1052-1066), run after every render in which
  \<^verbatim>\<open>videos\<close> changed. \<open>purgeStale\<close> is the body of its \<^verbatim>\<open>forEach\<close>.
\<close>

definition purgeStale :: "string \<Rightarrow> library \<Rightarrow> library" where
  "purgeStale vid s =
     (if vid \<in> set (map video_id (videos s)) then s
      else (let s1 = s\<lparr>videoCardRefs := removeAll vid (videoCardRefs s),
                        requestedThumbnails := requestedThumbnails s - {vid}\<rparr>
            in case find (\<lambda>v. video_id v = vid) (videos s1) of
                 Some video \<Rightarrow> clearThumbnailForVideo (video_url video) s1
               | None \<Rightarrow> s1))"

definition staleCleanupEffect :: "library \<Rightarrow> library" where
  "staleCleanupEffect s = fold purgeStale (videoCardRefs s) s"

text \<open>
  The parent passes a new \<^verbatim>\<open>videos\<close> prop: the cards are rendered, the effects run, and a
  changed page is rendered again.
\<close>

definition videosChanged :: "video_asset list \<Rightarrow> library \<Rightarrow> library" where
  "videosChanged vs s = renderCards (pageEffect (staleCleanupEffect (renderCards (s\<lparr>videos := vs\<rparr>))))"

text \<open>
  \<^verbatim>\<open>handleDelete\<close> (lines 1237-1271). \<open>confirmed\<close> is the answer of \<^verbatim>\<open>window.confirm\<close>.
\<close>

definition pathOf :: "video_asset \<Rightarrow> string" where
  "pathOf video = (case fullPath video of None \<Rightarrow> video_name video
                   | Some p \<Rightarrow> if p = [] then video_name video else p)"

definition isHlsPath :: "string \<Rightarrow> bool" where
  "isHlsPath p = (sublist ''/hls/'' p \<or> suffix ''.m3u8'' p \<or> suffix ''.ts'' p)"

definition handleDelete :: "video_asset \<Rightarrow> bool \<Rightarrow> library \<Rightarrow> library" where
  "handleDelete video confirmed s =
     (if isHlsPath (pathOf video) then s\<lparr>alerts := alerts s @ [HlsNotice]\<rparr>
      else if video_id video \<in> optimizingVideos s then s\<lparr>alerts := alerts s @ [OptimizingNotice]\<rparr>
      else if confirmed then
        (let s1 = clearThumbnailForVideo (video_url video) s;
             s2 = s1\<lparr>deleted := deleted s1 @ [video]\<rparr>;
             s3 = (if selectedVideoId s2 = Some (video_id video)
                   then setState (\<lambda>s. s\<lparr>selectedVideoId := None\<rparr>) s2 else s2);
             s4 = s3\<lparr>videoCardRefs := removeAll (video_id video) (videoCardRefs s3),
                     requestedThumbnails := requestedThumbnails s3 - {video_id video}\<rparr>
         in setState (\<lambda>s. s\<lparr>thumbnails := AList.delete (video_id video) (thumbnails s)\<rparr>) s4)
      else s)"

section \<open>Example states\<close>

text \<open>A player whose video reported a duration of 120.5 s, on a track 1205 pixels wide:
  the state after \<^verbatim>\<open>handleLoadedMetadata\<close> (lines 356-365).\<close>

definition loadedPlayer :: player where
  "loadedPlayer =
     \<lparr>videoRef = Some \<lparr>v_currentTime = 0, v_paused = True\<rparr>,
      scrubberRef = Some \<lparr>rect_left = 0, rect_width = 1205\<rparr>,
      isDraggingRef = False, currentTimeRef = Fin 0, isPlaying = False, currentTime = Fin 0,
      duration = Fin (241 / 2), startPoint = Fin 0, endPoint = Fin (241 / 2), dragType = None\<rparr>"

text \<open>The same player during playback, with the range 10 s to 20 s and the surface at
  20.04 s.\<close>

definition playingPlayer :: player where
  "playingPlayer =
     loadedPlayer\<lparr>videoRef := Some \<lparr>v_currentTime = 2004 / 100, v_paused = False\<rparr>,
                  isPlaying := True, currentTimeRef := Fin 20, currentTime := Fin 20,
                  startPoint := Fin 10, endPoint := Fin 20\<rparr>"

definition movie :: video_asset where
  "movie = \<lparr>video_id = ''v1'', video_name = ''movie.mp4'', video_url = ''http://host/movie.mp4'',
            fullPath = None\<rparr>"

text \<open>A library that shows one video, for which \<^verbatim>\<open>handleOptimize\<close> has set the optimizing
  marker (line 1180), and the job that \<^verbatim>\<open>pollOptimizeTask\<close> then starts at time 0.\<close>

definition emptyLibrary :: library where
  "emptyLibrary =
     \<lparr>mounted = True, videos = [], currentPage = 1, selectedVideoId = None, thumbnails = [],
      loadingThumbnails = {}, requestedThumbnails = {}, videoCardRefs = [], thumbnailCache = {},
      optimizingVideos = {}, pollingTasks = [], timers = [], nextTimer = 1, clock = 0,
      inflight = [], thumbRequests = [], alerts = [], deleted = []\<rparr>"

definition optimizingLibrary :: library where
  "optimizingLibrary = (videosChanged [movie] emptyLibrary)\<lparr>optimizingVideos := {''v1''}\<rparr>"

definition job1 :: job where
  "job1 = \<lparr>job_taskId = ''t1'', job_videoId = ''v1'', job_startTime = 0\<rparr>"

definition pollingLibrary :: library where
  "pollingLibrary = pollOptimizeTask ''t1'' ''v1'' optimizingLibrary"

section \<open>Properties of the Player\<close>

subsection \<open>Clip creation\<close>

text \<open>Rounding to three decimals moves a value by at most half a millisecond.\<close>

lemma round3_near: "\<bar>round3 x - x\<bar> \<le> 1 / 2000"
proof -
  define n :: real where "n = of_int \<lfloor>x * 1000 + 1 / 2\<rfloor>"
  have lo: "n \<le> x * 1000 + 1 / 2" unfolding n_def by (rule of_int_floor_le)
  have hi: "x * 1000 + 1 / 2 < n + 1" unfolding n_def by linarith
  have eq: "round3 x = n / 1000" by (simp add: round3_def math_round_def n_def)
  have "\<bar>n / 1000 - x\<bar> \<le> 1 / 2000" using lo hi by linarith
  then show ?thesis by (simp only: eq)
qed

text \<open>What \<^verbatim>\<open>handleCreateClip\<close> does for every subtraction of doubles: the checks come in
  the order of the source, a failed check only raises its alert, and the descriptor of a
  finite range has the rounded ends, so its length is within one millisecond of the
  length of the range.\<close>

lemma createClip_checks:
  "createClip dsub None sp ep u = Inl NoAssetSelected"
  "js_ge sp ep \<Longrightarrow> createClip dsub (Some a) sp ep u = Inl InvalidOrder"
  "\<not> js_ge sp ep \<Longrightarrow> js_lt (js_sub_by dsub ep sp) (Fin (1 / 10)) \<Longrightarrow>
     createClip dsub (Some a) sp ep u = Inl TooShort"
  by (simp_all add: createClip_def)

lemma createClip_failure_keeps_timeline:
  "createClip dsub video (startPoint s) (endPoint s) u = Inl err \<Longrightarrow>
     handleCreateClip dsub video u s h = h\<lparr>clip_alerts := clip_alerts h @ [err]\<rparr>"
  by (simp add: handleCreateClip_def)

lemma createClip_descriptor:
  assumes "createClip dsub video (Fin s) (Fin e) u = Inr c"
  shows "\<exists>a. video = Some a \<and> sourceVideoId c = video_id a \<and> s < e \<and> \<not> dsub e s < 1 / 10
           \<and> startTime c = Fin (round3 s) \<and> endTime c = Fin (round3 e)
           \<and> \<bar>(round3 e - round3 s) - (e - s)\<bar> \<le> 1 / 1000"
proof -
  have near: "\<bar>(round3 e - round3 s) - (e - s)\<bar> \<le> 1 / 1000"
    using round3_near[of e] round3_near[of s] by linarith
  show ?thesis
    using assms near
    by (cases video) (auto simp: createClip_def split: if_splits)
qed

text \<open>
  The shortest range the drag handler allows. Dragging the end handle to 118 s and then
  the start handle to 119 s stores the start \<^verbatim>\<open>118 - 0.1\<close>, printed 117.9. On doubles
  \<^verbatim>\<open>118 - 117.9\<close> is \<^verbatim>\<open>0.09999999999999432\<close>: whenever the subtraction returns a value below
  0.1 for this range, \<^verbatim>\<open>handleCreateClip\<close> refuses it as too short.
\<close>

lemma drag_stored_range:
  "player_run [StartDrag DragEnd, MouseMove 1180, MouseUp, StartDrag DragStart, MouseMove 1190, MouseUp]
     loadedPlayer
   = loadedPlayer\<lparr>videoRef := Some \<lparr>v_currentTime = 1179 / 10, v_paused = True\<rparr>,
       currentTimeRef := Fin (1179 / 10), currentTime := Fin (1179 / 10),
       startPoint := Fin (1179 / 10), endPoint := Fin 118\<rparr>"
  by (simp add: player_run_def loadedPlayer_def dragEffect_def handleStartDrag_def handleMouseMove_def
        handleMouseUp_def pointerTime_def round3_def math_round_def Let_def)

lemma rounded_difference_refused:
  assumes "dsub 118 (1179 / 10) < 1 / 10"
  shows "handleCreateClip dsub (Some movie) u
           (player_run [StartDrag DragEnd, MouseMove 1180, MouseUp, StartDrag DragStart, MouseMove 1190, MouseUp]
              loadedPlayer)
           \<lparr>timeline = [], clip_alerts = []\<rparr>
         = \<lparr>timeline = [], clip_alerts = [TooShort]\<rparr>"
  unfolding drag_stored_range
  using assms by (simp add: handleCreateClip_def createClip_def loadedPlayer_def)

text \<open>A start that is not a number: what the Start field stores when the milliseconds
  typed into it have no leading digit.\<close>

lemma parse_abc: "parseTimeString ''0:00.abc'' = NaN"
  by code_simp

lemma format_end: "formatTime (Fin (241 / 2)) = ''2:00.500''"
  by code_simp

lemma edited_start_eq:
  "onChangeStart ''0:00.abc'' loadedPlayer = loadedPlayer\<lparr>startPoint := NaN\<rparr>"
  by (simp add: parse_abc onChangeStart_def loadedPlayer_def falsy_def Let_def)

text \<open>
  Claim C6 at a failing input. Typing \<^verbatim>\<open>0:00.abc\<close> into the Start field of the loaded
  player stores the start \<open>NaN\<close>; the end stays 120.5 s and the button that creates a clip
  stays enabled. \<^verbatim>\<open>handleCreateClip\<close> then raises no alert, whatever the subtraction of
  doubles returns on finite operands: \<^verbatim>\<open>startPoint >= endPoint\<close> and
  \<^verbatim>\<open>endPoint - startPoint < 0.1\<close> are both false on \<open>NaN\<close>. The descriptor with
  \<^verbatim>\<open>startTime = NaN\<close> is appended to the timeline, although its start is not before its
  end, for which the validation is to answer \<open>InvalidOrder\<close>.
\<close>

theorem createClip_accepts_NaN_start:
  "startPoint (onChangeStart ''0:00.abc'' loadedPlayer) = NaN
   \<and> endPoint (onChangeStart ''0:00.abc'' loadedPlayer) = Fin (241 / 2)
   \<and> \<not> createClipDisabled (onChangeStart ''0:00.abc'' loadedPlayer)
   \<and> createClip dsub (Some movie) NaN (Fin (241 / 2)) ''c1''
        = Inr \<lparr>clip_id = ''c1'', sourceVideoId = ''v1'', clip_name = ''movie.mp4 (0:00.000-2:00.500)'',
                startTime = NaN, endTime = Fin (241 / 2)\<rparr>
   \<and> handleCreateClip dsub (Some movie) ''c1'' (onChangeStart ''0:00.abc'' loadedPlayer)
          \<lparr>timeline = [], clip_alerts = []\<rparr>
        = \<lparr>timeline = [\<lparr>clip_id = ''c1'', sourceVideoId = ''v1'',
                          clip_name = ''movie.mp4 (0:00.000-2:00.500)'',
                          startTime = NaN, endTime = Fin (241 / 2)\<rparr>],
            clip_alerts = []\<rparr>"
  unfolding edited_start_eq
  by (simp add: createClipDisabled_def falsy_def handleCreateClip_def createClip_def loadedPlayer_def
        movie_def format_end round3_def math_round_def del: formatTime.simps(2))

subsection \<open>Playback bounds\<close>

text \<open>
  With a finite start \<open>a\<close> and the surface mounted, the bounds are enforced. While
  \<^verbatim>\<open>isPlaying\<close> holds and no drag session is open, a tick of the 100 ms interval that finds
  the surface at or beyond the end of the range pauses the surface, seeks it to \<open>a\<close> (the
  stored position follows) and clears \<^verbatim>\<open>isPlaying\<close>; nothing else changes. The \<^verbatim>\<open>ended\<close>
  event clears \<^verbatim>\<open>isPlaying\<close> and seeks to \<open>a\<close> in every state.
\<close>

lemma playback_bounds_enforced:
  assumes "videoRef s = Some v" and "startPoint s = Fin a"
  shows "(isPlaying s \<and> \<not> isDraggingRef s \<and> endPoint s = Fin e \<and> e \<le> v_currentTime v \<longrightarrow>
            playbackTick s =
              s\<lparr>videoRef := Some \<lparr>v_currentTime = a, v_paused = True\<rparr>,
                currentTimeRef := Fin a, currentTime := Fin a, isPlaying := False\<rparr>)
       \<and> onEnded s =
              s\<lparr>videoRef := Some (v\<lparr>v_currentTime := a\<rparr>),
                currentTimeRef := Fin a, currentTime := Fin a, isPlaying := False\<rparr>"
  using assms by (simp add: playbackTick_def checkPlaybackBounds_def onEnded_def Let_def)

lemma playback_bounds_enforced_example:
  "playbackTick playingPlayer =
     playingPlayer\<lparr>videoRef := Some \<lparr>v_currentTime = 10, v_paused = True\<rparr>,
       currentTimeRef := Fin 10, currentTime := Fin 10, isPlaying := False\<rparr>
   \<and> onEnded playingPlayer =
     playingPlayer\<lparr>videoRef := Some \<lparr>v_currentTime = 10, v_paused = False\<rparr>,
       currentTimeRef := Fin 10, currentTime := Fin 10, isPlaying := False\<rparr>"
  using playback_bounds_enforced [of playingPlayer "\<lparr>v_currentTime = 2004 / 100, v_paused = False\<rparr>" 10 20]
  by (simp add: playingPlayer_def loadedPlayer_def)

text \<open>
  Claim C7 at a failing input. During playback of the range from 10 s to 20 s, with the
  surface at 20.04 s, \<^verbatim>\<open>0:00.abc\<close> is typed into the Start field, which stores the start
  \<open>NaN\<close>. The next tick finds the surface beyond the end and pauses it, but the
  assignment of \<open>NaN\<close> to \<^verbatim>\<open>currentTime\<close> raises before \<^verbatim>\<open>setIsPlaying(false)\<close> is reached
  (lines 229-233): \<^verbatim>\<open>isPlaying\<close> stays set, and every further tick ends the same way.
  \<^verbatim>\<open>onEnded\<close> clears \<^verbatim>\<open>isPlaying\<close> before it seeks (lines 560-562), so the same state
  leaves playback on the \<^verbatim>\<open>ended\<close> event.
\<close>

theorem tick_with_NaN_start_stays_playing:
  "player_run [EditStart ''0:00.abc'', Tick] playingPlayer
     = playingPlayer\<lparr>startPoint := NaN,
         videoRef := Some \<lparr>v_currentTime = 2004 / 100, v_paused = True\<rparr>\<rparr>
   \<and> isPlaying (player_run [EditStart ''0:00.abc'', Tick] playingPlayer)
   \<and> player_run [EditStart ''0:00.abc'', Tick, Tick] playingPlayer
       = player_run [EditStart ''0:00.abc'', Tick] playingPlayer
   \<and> player_run [EditStart ''0:00.abc'', Ended] playingPlayer
       = playingPlayer\<lparr>startPoint := NaN, isPlaying := False\<rparr>"
  by (simp add: player_run_def parse_abc onChangeStart_def playingPlayer_def loadedPlayer_def falsy_def
        playbackTick_def checkPlaybackBounds_def onEnded_def Let_def)

subsection \<open>Drag sessions\<close>

text \<open>A seek writes the surface position and the stored position only.\<close>

lemma seek_frame:
  assumes "seek t v s = Some s'"
  shows "isDraggingRef s' = isDraggingRef s" and "isPlaying s' = isPlaying s"
    and "startPoint s' = startPoint s" and "endPoint s' = endPoint s"
    and "duration s' = duration s" and "dragType s' = dragType s"
    and "scrubberRef s' = scrubberRef s"
  using assms by (cases t; auto)+

lemma step_keeps_session:
  "isDraggingRef s \<Longrightarrow> ev \<noteq> MouseUp \<Longrightarrow> isDraggingRef (player_step ev s)"
  by (cases ev)
     (auto simp: dragEffect_def handleStartDrag_def handleMouseMove_def handleTimeUpdate_def
        playbackTick_def checkPlaybackBounds_def onEnded_def onChangeStart_def onChangeEnd_def Let_def
      split: option.splits drag_type.splits dest: seek_frame(1))

lemma time_update_ignored: "isDraggingRef s \<Longrightarrow> player_step TimeUpdate s = s"
  by (simp add: handleTimeUpdate_def split: option.splits)

lemma run_skips_time_updates:
  "isDraggingRef s \<Longrightarrow> MouseUp \<notin> set evs \<Longrightarrow>
     player_run evs s = player_run (filter (\<lambda>ev. ev \<noteq> TimeUpdate) evs) s
     \<and> isDraggingRef (player_run evs s)"
proof (induction evs arbitrary: s)
  case Nil
  then show ?case by (simp add: player_run_def)
next
  case (Cons ev evs)
  from Cons.prems have "ev \<noteq> MouseUp" by auto
  with Cons.prems have open': "isDraggingRef (player_step ev s)"
    by (simp add: step_keeps_session)
  from Cons.prems have rest: "MouseUp \<notin> set evs" by simp
  note IH = Cons.IH [OF open' rest]
  show ?case
  proof (cases "ev = TimeUpdate")
    case True
    with Cons.prems have "player_step ev s = s" using time_update_ignored [of s] by simp
    with IH True show ?thesis by (auto simp: player_run_def)
  next
    case False
    with IH show ?thesis by (auto simp: player_run_def)
  qed
qed

text \<open>
  Claim C9. A mouse-down on a handle while \<^verbatim>\<open>isPlaying\<close> holds pauses the surface and
  clears \<^verbatim>\<open>isPlaying\<close> in the same step that opens the session, and a mouse-move is
  processed only in an open session, so playback is paused before the first drag-move.
  In an open session a position event of the surface changes nothing; over any sequence
  of events without a mouse-up the session stays open and the position events can be
  dropped from the sequence without changing the resulting state.
\<close>

theorem drag_takes_priority:
  "(videoRef s = Some v \<and> isPlaying s \<longrightarrow>
      player_step (StartDrag ty) s =
        s\<lparr>videoRef := Some (v\<lparr>v_paused := True\<rparr>), isPlaying := False,
          dragType := Some ty, isDraggingRef := True\<rparr>)
   \<and> (\<not> isDraggingRef s \<longrightarrow> player_step (MouseMove x) s = s)
   \<and> (isDraggingRef s \<longrightarrow> player_step TimeUpdate s = s)
   \<and> (isDraggingRef s \<and> MouseUp \<notin> set evs \<longrightarrow>
        player_run evs s = player_run (filter (\<lambda>ev. ev \<noteq> TimeUpdate) evs) s
        \<and> isDraggingRef (player_run evs s))"
  using run_skips_time_updates [of s evs] time_update_ignored [of s]
  by (auto simp: dragEffect_def handleStartDrag_def)

theorem drag_takes_priority_witness:
  "player_step (StartDrag DragEnd) playingPlayer =
     playingPlayer\<lparr>videoRef := Some \<lparr>v_currentTime = 2004 / 100, v_paused = True\<rparr>, isPlaying := False,
        dragType := Some DragEnd, isDraggingRef := True\<rparr>
   \<and> player_step (MouseMove 600) playingPlayer = playingPlayer
   \<and> player_step TimeUpdate (player_step (StartDrag DragEnd) playingPlayer)
        = player_step (StartDrag DragEnd) playingPlayer
   \<and> player_run [TimeUpdate, MouseMove 600, TimeUpdate] (player_step (StartDrag DragEnd) playingPlayer)
        = player_run [MouseMove 600] (player_step (StartDrag DragEnd) playingPlayer)"
proof -
  let ?v = "\<lparr>v_currentTime = 2004 / 100, v_paused = False\<rparr>"
  let ?d = "player_step (StartDrag DragEnd) playingPlayer"
  have pre: "videoRef playingPlayer = Some ?v \<and> isPlaying playingPlayer \<and> \<not> isDraggingRef playingPlayer"
    by (simp add: playingPlayer_def loadedPlayer_def)
  have 1: "?d = playingPlayer\<lparr>videoRef := Some (?v\<lparr>v_paused := True\<rparr>), isPlaying := False,
        dragType := Some DragEnd, isDraggingRef := True\<rparr>"
    using drag_takes_priority [of playingPlayer ?v DragEnd 0 "[]"] pre by blast
  have 2: "player_step (MouseMove 600) playingPlayer = playingPlayer"
    using drag_takes_priority [of playingPlayer ?v DragEnd 600 "[]"] pre by blast
  have dragging: "isDraggingRef ?d" by (simp only: 1) simp
  have 3: "player_step TimeUpdate ?d = ?d"
    using drag_takes_priority [of ?d ?v DragEnd 0 "[]"] dragging by blast
  have 4: "player_run [TimeUpdate, MouseMove 600, TimeUpdate] ?d = player_run [MouseMove 600] ?d"
    using drag_takes_priority [of ?d ?v DragEnd 0 "[TimeUpdate, MouseMove 600, TimeUpdate]"] dragging
    by simp
  from 1 2 3 4 show ?thesis by simp
qed

subsection \<open>Clamping of the dragged range\<close>

text \<open>The state in which the drag scenario moves the start handle: the end was dragged
  to 118 s, the button released, and the start handle grabbed.\<close>

lemma drag_scenario_states:
  "player_run [StartDrag DragEnd, MouseMove 1180, MouseUp, StartDrag DragStart] loadedPlayer
     = loadedPlayer\<lparr>endPoint := Fin 118, dragType := Some DragStart, isDraggingRef := True\<rparr>"
  by (simp add: player_run_def loadedPlayer_def dragEffect_def handleStartDrag_def handleMouseMove_def
        handleMouseUp_def pointerTime_def round3_def math_round_def Let_def)

text \<open>
  The drag path, \<^verbatim>\<open>handleMouseMove\<close>, where \<open>t\<close> is the time under the pointer. Dragging the
  start handle stores the clamp of \<open>t\<close> to the interval from 0 to \<open>endTime - 0.1\<close>, and
  dragging the end handle stores the clamp of \<open>t\<close> to the interval from \<open>startTime + 0.1\<close>
  to \<open>duration\<close>, whenever the interval is not empty. In the scenario (duration 120.5 s,
  end dragged to 118.0, then start dragged to 119.0) the stored start is 117.9.
\<close>

lemma drag_clamps_range:
  assumes "scrubberRef s = Some r" and "videoRef s = Some v"
    and "pointerTime x r (duration s) = Fin t"
  shows "(dragType s = Some DragStart \<and> endPoint s = Fin e \<and> 0 \<le> e - 1 / 10 \<longrightarrow>
            startPoint (handleMouseMove x s) = Fin (clamp_to 0 (e - 1 / 10) t))
       \<and> (dragType s = Some DragEnd \<and> startPoint s = Fin a \<and> duration s = Fin d \<and> a + 1 / 10 \<le> d \<longrightarrow>
            endPoint (handleMouseMove x s) = Fin (clamp_to (a + 1 / 10) d t))
       \<and> startPoint (player_run [StartDrag DragEnd, MouseMove 1180, MouseUp, StartDrag DragStart, MouseMove 1190]
            loadedPlayer) = Fin (1179 / 10)"
proof -
  have scenario: "startPoint (player_run [StartDrag DragEnd, MouseMove 1180, MouseUp, StartDrag DragStart, MouseMove 1190]
            loadedPlayer) = Fin (1179 / 10)"
    by (simp add: player_run_def loadedPlayer_def dragEffect_def handleStartDrag_def handleMouseMove_def
        handleMouseUp_def pointerTime_def round3_def math_round_def Let_def)
  show ?thesis
    using assms scenario
    by (auto simp: handleMouseMove_def clamp_to_def Let_def max_def min_def)
qed

lemma drag_clamps_range_example:
  "pointerTime 1190 \<lparr>rect_left = 0, rect_width = 1205\<rparr> (Fin (241 / 2)) = Fin 119
   \<and> startPoint (handleMouseMove 1190
        (loadedPlayer\<lparr>endPoint := Fin 118, dragType := Some DragStart, isDraggingRef := True\<rparr>))
       = Fin (1179 / 10)
   \<and> pointerTime 1180 \<lparr>rect_left = 0, rect_width = 1205\<rparr> (Fin (241 / 2)) = Fin 118
   \<and> endPoint (handleMouseMove 1180 (loadedPlayer\<lparr>dragType := Some DragEnd, isDraggingRef := True\<rparr>))
       = Fin 118"
proof -
  let ?r = "\<lparr>rect_left = 0, rect_width = 1205\<rparr>"
  let ?v = "\<lparr>v_currentTime = 0, v_paused = True\<rparr>"
  let ?s1 = "loadedPlayer\<lparr>endPoint := Fin 118, dragType := Some DragStart, isDraggingRef := True\<rparr>"
  let ?s2 = "loadedPlayer\<lparr>dragType := Some DragEnd, isDraggingRef := True\<rparr>"
  have p1: "pointerTime 1190 ?r (Fin (241 / 2)) = Fin 119"
    by (simp add: pointerTime_def round3_def math_round_def)
  have p2: "pointerTime 1180 ?r (Fin (241 / 2)) = Fin 118"
    by (simp add: pointerTime_def round3_def math_round_def)
  have a1: "scrubberRef ?s1 = Some ?r" "videoRef ?s1 = Some ?v" "pointerTime 1190 ?r (duration ?s1) = Fin 119"
    using p1 by (simp_all add: loadedPlayer_def)
  have a2: "scrubberRef ?s2 = Some ?r" "videoRef ?s2 = Some ?v" "pointerTime 1180 ?r (duration ?s2) = Fin 118"
    using p2 by (simp_all add: loadedPlayer_def)
  have h1: "dragType ?s1 = Some DragStart \<and> endPoint ?s1 = Fin 118 \<and> (0::real) \<le> 118 - 1 / 10"
    by simp
  have h2: "dragType ?s2 = Some DragEnd \<and> startPoint ?s2 = Fin 0 \<and> duration ?s2 = Fin (241 / 2)
      \<and> (0::real) + 1 / 10 \<le> 241 / 2"
    by (simp add: loadedPlayer_def)
  from drag_clamps_range [OF a1, of 118 0 0] h1
  have 1: "startPoint (handleMouseMove 1190 ?s1) = Fin (clamp_to 0 (118 - 1 / 10) 119)"
    by blast
  from drag_clamps_range [OF a2, of 0 0 "241 / 2"] h2
  have 2: "endPoint (handleMouseMove 1180 ?s2) = Fin (clamp_to (0 + 1 / 10) (241 / 2) 118)"
    by blast
  from 1 2 p1 p2 show ?thesis by (simp add: clamp_to_def)
qed

subsection \<open>The trim invariant\<close>

text \<open>On a track of positive width the drag path keeps the invariant: it clamps on both
  sides.\<close>

lemma seek_preserves_invariant: "seek t v s = Some s' \<Longrightarrow> trim_invariant s' = trim_invariant s"
  by (simp add: trim_invariant_def seek_frame)

lemma pointerTime_finite:
  "0 < rect_width r \<Longrightarrow> \<exists>t. pointerTime x r (Fin d) = Fin t"
  by (simp add: pointerTime_def Let_def)

lemma drag_preserves_invariant:
  assumes "trim_invariant s" and "scrubberRef s = Some r" and "0 < rect_width r"
  shows "trim_invariant (handleMouseMove x s)"
proof -
  from assms(1) obtain a b d where fin: "startPoint s = Fin a" "endPoint s = Fin b" "duration s = Fin d"
    and inv: "0 \<le> a" "a \<le> b - 1 / 10" "b - 1 / 10 \<le> d"
    by (auto simp: trim_invariant_def split: jsnum.splits)
  from pointerTime_finite [OF assms(3)] fin obtain t where t: "pointerTime x r (duration s) = Fin t"
    by metis
  show ?thesis
    using fin inv t assms(2)
    by (auto simp: handleMouseMove_def trim_invariant_def Let_def split: option.splits drag_type.splits)
qed

text \<open>What the text fields parse from two inputs a user can type.\<close>

lemma parse_99: "parseTimeString ''99:00.000'' = Fin 5940"
  by code_simp
lemma parse_neg: "parseTimeString ''-1:00.000'' = Fin (- 60)"
  by code_simp

text \<open>
  Claim C3 at a failing input. In the loaded player (start 0, end and duration 120.5 s)
  the invariant holds. Typing \<^verbatim>\<open>99:00.000\<close> into the End field stores the end 5940 s,
  beyond the duration; typing \<^verbatim>\<open>-1:00.000\<close> into the Start field stores the start -60 s.
  Either edit breaks the invariant: the End handler has no upper clamp and the Start
  handler no lower clamp, which the drag handler has.
\<close>

theorem text_edit_breaks_trim_invariant:
  "trim_invariant loadedPlayer
   \<and> endPoint (onChangeEnd ''99:00.000'' loadedPlayer) = Fin 5940
   \<and> \<not> trim_invariant (onChangeEnd ''99:00.000'' loadedPlayer)
   \<and> startPoint (onChangeStart ''-1:00.000'' loadedPlayer) = Fin (- 60)
   \<and> \<not> trim_invariant (onChangeStart ''-1:00.000'' loadedPlayer)"
  by (simp add: parse_99 parse_neg onChangeEnd_def onChangeStart_def loadedPlayer_def trim_invariant_def
        falsy_def Let_def)

text \<open>
  Claim C8 at a failing input. The text fields are the other way to set the start and
  the end. In the loaded player (start 0, end and duration 120.5 s), typing \<^verbatim>\<open>-1:00.000\<close>
  into the Start field stores the start -60 s, where the clamp of -60 to the interval
  from 0 to \<open>endTime - 0.1\<close> is 0; typing \<^verbatim>\<open>99:00.000\<close> into the End field stores the end
  5940 s, where the clamp of 5940 to the interval from \<open>startTime + 0.1\<close> to the duration is
  120.5. The Start handler takes only the minimum with \<open>endTime - 0.1\<close> (line 840) and the
  End handler only the maximum with \<open>startTime + 0.1\<close> (line 860).
\<close>

theorem text_fields_store_unclamped:
  "startPoint loadedPlayer = Fin 0 \<and> endPoint loadedPlayer = Fin (241 / 2)
   \<and> duration loadedPlayer = Fin (241 / 2)
   \<and> startPoint (onChangeStart ''-1:00.000'' loadedPlayer) = Fin (- 60)
   \<and> clamp_to 0 (241 / 2 - 1 / 10) (- 60) = 0
   \<and> endPoint (onChangeEnd ''99:00.000'' loadedPlayer) = Fin 5940
   \<and> clamp_to (0 + 1 / 10) (241 / 2) 5940 = 241 / 2"
  by (simp add: parse_99 parse_neg onChangeEnd_def onChangeStart_def loadedPlayer_def clamp_to_def
        falsy_def Let_def)

section \<open>Properties of the TimeCodec\<close>

subsection \<open>Printing and reading decimal digits\<close>

text \<open>
  \<open>string_of_nat\<close> prints decimal digits only, and \<^verbatim>\<open>parseInt\<close> reads a string of decimal
  digits back to its value, with or without leading zeros.
\<close>

lemma digit_char_decimal: "digit_char d \<in> set ''0123456789''"
proof -
  have "d mod 10 < length ''0123456789''" by simp
  then show ?thesis unfolding digit_char_def by (rule nth_mem)
qed

lemma digit_val_digit_char: "d < 10 \<Longrightarrow> digit_val (digit_char d) = Some d"
proof -
  assume "d < 10"
  have "\<forall>k \<in> set [0 ..< 10]. digit_val (digit_char k) = Some k"
    by code_simp
  with \<open>d < 10\<close> show ?thesis by simp
qed

lemma string_of_nat_decimal: "decimal (string_of_nat n)"
proof (induction n rule: string_of_nat.induct)
  case (1 n)
  show ?case
  proof (cases "n < 10")
    case True
    then show ?thesis
      using digit_char_decimal [of n] by (subst string_of_nat.simps) (simp add: decimal_def)
  next
    case False
    with 1 have "decimal (string_of_nat (n div 10))" by simp
    with False show ?thesis
      using digit_char_decimal [of "n mod 10"]
      by (subst string_of_nat.simps) (simp add: decimal_def)
  qed
qed

lemma digits_value_snoc:
  "digits_value r (ds @ [c]) = digits_value r ds * r + (case digit_val c of None \<Rightarrow> 0 | Some d \<Rightarrow> d)"
  by (simp add: digits_value_def)

lemma digits_value_string_of_nat: "digits_value 10 (string_of_nat n) = n"
proof (induction n rule: string_of_nat.induct)
  case (1 n)
  show ?case
  proof (cases "n < 10")
    case True
    then show ?thesis
      by (subst string_of_nat.simps) (simp add: digits_value_def digit_val_digit_char)
  next
    case False
    with 1 have "digits_value 10 (string_of_nat (n div 10)) = n div 10" by simp
    with False show ?thesis
      by (subst string_of_nat.simps) (simp add: digits_value_snoc digit_val_digit_char)
  qed
qed

lemma decimal_char_props:
  assumes "c \<in> set ''0123456789''"
  shows "is_digit 10 c" and "\<not> is_space c" and "c \<noteq> CHR ''-''" and "c \<noteq> CHR ''+''"
    and "c \<noteq> CHR ''x''" and "c \<noteq> CHR ''X''" and "c \<noteq> CHR '':''" and "c \<noteq> CHR ''.''"
proof -
  have "\<forall>k \<in> set ''0123456789''. is_digit 10 k \<and> \<not> is_space k \<and> k \<noteq> CHR ''-'' \<and> k \<noteq> CHR ''+''
      \<and> k \<noteq> CHR ''x'' \<and> k \<noteq> CHR ''X'' \<and> k \<noteq> CHR '':'' \<and> k \<noteq> CHR ''.''"
    by code_simp
  with assms show "is_digit 10 c" and "\<not> is_space c" and "c \<noteq> CHR ''-''" and "c \<noteq> CHR ''+''"
    and "c \<noteq> CHR ''x''" and "c \<noteq> CHR ''X''" and "c \<noteq> CHR '':''" and "c \<noteq> CHR ''.''"
    by blast+
qed

lemma parseInt_decimal:
  assumes "decimal ds"
  shows "parseInt ds = Fin (of_nat (digits_value 10 ds))"
proof -
  from assms obtain c cs where ds: "ds = c # cs" and c: "c \<in> set ''0123456789''"
    and cs: "set cs \<subseteq> set ''0123456789''"
    by (cases ds) (auto simp: decimal_def)
  have all: "\<forall>k \<in> set ds. is_digit 10 k"
    using assms decimal_char_props(1) by (auto simp: decimal_def)
  have tw: "takeWhile (is_digit 10) ds = ds"
    using all by (simp add: takeWhile_eq_all_conv)
  have dw: "dropWhile is_space ds = ds"
    using decimal_char_props(2) [OF c] by (simp add: ds)
  have sign: "take 1 ds \<noteq> ''-''" "take 1 ds \<noteq> ''+''"
    using decimal_char_props(3,4) [OF c] by (simp_all add: ds)
  have nohex: "take 2 ds \<noteq> ''0x''" "take 2 ds \<noteq> ''0X''"
  proof -
    show "take 2 ds \<noteq> ''0x''"
    proof (cases cs)
      case Nil
      then show ?thesis by (simp add: ds)
    next
      case (Cons k ks)
      with cs have "k \<in> set ''0123456789''" by auto
      from decimal_char_props(5) [OF this] show ?thesis by (simp add: ds Cons)
    qed
    show "take 2 ds \<noteq> ''0X''"
    proof (cases cs)
      case Nil
      then show ?thesis by (simp add: ds)
    next
      case (Cons k ks)
      with cs have "k \<in> set ''0123456789''" by auto
      from decimal_char_props(6) [OF this] show ?thesis by (simp add: ds Cons)
    qed
  qed
  have ne: "ds \<noteq> []" by (simp add: ds)
  show ?thesis
    unfolding parseInt_def Let_def dw
    using sign nohex ne by (simp add: tw)
qed

lemma digits_value_zeros: "digits_value 10 (replicate k CHR ''0'') = 0"
proof (induction k)
  case 0
  then show ?case by (simp add: digits_value_def)
next
  case (Suc k)
  have dv0: "digit_val CHR ''0'' = Some 0" by code_simp
  have "replicate (Suc k) CHR ''0'' = replicate k CHR ''0'' @ [CHR ''0'']"
    by (simp add: replicate_append_same)
  then show ?case by (simp only: digits_value_snoc Suc.IH dv0) simp
qed

lemma digits_value_leading_zeros:
  "digits_value 10 (replicate k CHR ''0'' @ ds) = digits_value 10 ds"
proof -
  let ?f = "\<lambda>acc c. acc * 10 + (case digit_val c of None \<Rightarrow> 0 | Some d \<Rightarrow> d)"
  have "digits_value 10 (replicate k CHR ''0'' @ ds) = foldl ?f (digits_value 10 (replicate k CHR ''0'')) ds"
    by (simp add: digits_value_def)
  also have "\<dots> = foldl ?f 0 ds" by (simp only: digits_value_zeros)
  also have "\<dots> = digits_value 10 ds" by (simp add: digits_value_def)
  finally show ?thesis .
qed

lemma decimal_padStart: "decimal ds \<Longrightarrow> decimal (padStart k CHR ''0'' ds)"
  by (auto simp: decimal_def padStart_def)

lemma parseInt_padStart:
  "parseInt (padStart k CHR ''0'' (string_of_nat n)) = Fin (of_nat n)"
proof -
  have "decimal (padStart k CHR ''0'' (string_of_nat n))"
    by (rule decimal_padStart, rule string_of_nat_decimal)
  from parseInt_decimal [OF this] show ?thesis
    by (simp add: padStart_def digits_value_leading_zeros digits_value_string_of_nat)
qed

lemma parseInt_string_of_nat: "parseInt (string_of_nat n) = Fin (of_nat n)"
  using parseInt_padStart [of 0 n] by (simp add: padStart_def)

lemma split_on_absent: "c \<notin> set xs \<Longrightarrow> split_on c xs = [xs]"
  by (induction xs) auto

lemma split_on_first: "c \<notin> set xs \<Longrightarrow> split_on c (xs @ c # ys) = xs # split_on c ys"
  by (induction xs) auto


subsection \<open>The round trip\<close>

text \<open>
  \<^verbatim>\<open>parseTimeString\<close> on a string of the shape that \<^verbatim>\<open>formatTime\<close> prints, when the
  milliseconds have at most three digits.
\<close>

lemma length_string_of_nat: "0 < k \<Longrightarrow> n < 10 ^ k \<Longrightarrow> length (string_of_nat n) \<le> k"
proof (induction k arbitrary: n)
  case 0
  then show ?case by simp
next
  case (Suc k)
  show ?case
  proof (cases "n < 10")
    case True
    then show ?thesis by (subst string_of_nat.simps) simp
  next
    case False
    with Suc.prems have small: "n div 10 < 10 ^ k" by simp
    from False small have "0 < k" by (cases k) auto
    from Suc.IH [OF this small] False show ?thesis
      by (subst string_of_nat.simps) simp
  qed
qed

lemma decimal_no_sep:
  assumes "decimal ds"
  shows "CHR '':'' \<notin> set ds" and "CHR ''.'' \<notin> set ds"
  using assms decimal_char_props(7,8) by (auto simp: decimal_def)

lemma parseTimeString_parts:
  assumes "split_on CHR '':'' txt = [p0, p1]" and "split_on CHR ''.'' p1 = [s0, f]" and "f \<noteq> []"
  shows "parseTimeString txt =
     roundToPrecision
       (js_add (js_add (js_mul (js_or (parseInt p0) (Fin 0)) (Fin 60)) (js_or (parseInt s0) (Fin 0)))
          (js_div (parseInt (take 3 (padEnd 3 CHR ''0'' f))) (Fin 1000)))"
  using assms by (simp add: parseTimeString_def Let_def)

lemma parse_formatted:
  assumes "K < 1000"
  shows "parseTimeString (string_of_nat M @ '':'' @ padStart 2 CHR ''0'' (string_of_nat S)
            @ ''.'' @ padStart 3 CHR ''0'' (string_of_nat K))
         = Fin (of_nat M * 60 + of_nat S + of_nat K / 1000)"
proof -
  let ?m = "string_of_nat M"
  let ?s = "padStart 2 CHR ''0'' (string_of_nat S)"
  let ?k = "padStart 3 CHR ''0'' (string_of_nat K)"
  have dm: "decimal ?m" by (rule string_of_nat_decimal)
  have ds: "decimal ?s" by (rule decimal_padStart, rule string_of_nat_decimal)
  have dk: "decimal ?k" by (rule decimal_padStart, rule string_of_nat_decimal)
  have "length (string_of_nat K) \<le> 3"
    using length_string_of_nat [of 3 K] assms by simp
  then have lk: "length ?k = 3" by (simp add: padStart_def)
  have colon: "split_on CHR '':'' (?m @ '':'' @ ?s @ ''.'' @ ?k) = [?m, ?s @ ''.'' @ ?k]"
  proof -
    have "CHR '':'' \<notin> set (?s @ ''.'' @ ?k)"
      using decimal_no_sep(1) [OF ds] decimal_no_sep(1) [OF dk] by simp
    then have "split_on CHR '':'' (?s @ ''.'' @ ?k) = [?s @ ''.'' @ ?k]" by (rule split_on_absent)
    with split_on_first [OF decimal_no_sep(1) [OF dm], of "?s @ ''.'' @ ?k"] show ?thesis by simp
  qed
  have dot: "split_on CHR ''.'' (?s @ ''.'' @ ?k) = [?s, ?k]"
    using split_on_first [OF decimal_no_sep(2) [OF ds], of ?k] split_on_absent [OF decimal_no_sep(2) [OF dk]]
    by simp
  have pm: "parseInt ?m = Fin (of_nat M)" by (rule parseInt_string_of_nat)
  have ps: "parseInt ?s = Fin (of_nat S)" by (rule parseInt_padStart)
  have pk: "parseInt (take 3 (padEnd 3 CHR ''0'' ?k)) = Fin (of_nat K)"
    using lk parseInt_padStart [of 3 K] by (simp add: padEnd_def)
  have kne: "?k \<noteq> []" using lk by auto
  have or0: "js_or (Fin (of_nat n)) (Fin 0) = Fin (of_nat n)" for n
    by simp
  have half: "\<lfloor>real_of_int z + 1 / 2\<rfloor> = z" for z
    by (rule floor_unique) simp_all
  have whole: "round3 (of_nat M * 60 + of_nat S + of_nat K / 1000) = of_nat M * 60 + of_nat S + of_nat K / 1000"
  proof -
    have "(real M * 60 + real S + real K / 1000) * 1000
        = real_of_int (int (M * 60000 + S * 1000 + K))"
      by simp
    then have "math_round ((real M * 60 + real S + real K / 1000) * 1000) = int (M * 60000 + S * 1000 + K)"
      unfolding math_round_def by (simp only: half)
    then show ?thesis by (simp add: round3_def)
  qed
  have "parseTimeString (?m @ '':'' @ ?s @ ''.'' @ ?k)
      = roundToPrecision
          (js_add (js_add (js_mul (js_or (Fin (of_nat M)) (Fin 0)) (Fin 60)) (js_or (Fin (of_nat S)) (Fin 0)))
             (js_div (Fin (of_nat K)) (Fin 1000)))"
    using parseTimeString_parts [OF colon dot kne] by (simp only: pm ps pk)
  also have "\<dots> = Fin (round3 (of_nat M * 60 + of_nat S + of_nat K / 1000))"
    by (simp only: or0) simp
  finally show ?thesis by (simp only: whole)
qed


text \<open>
  For every time \<open>t \<ge> 0\<close> whose milliseconds round to less than 1000, reading the
  formatted time gives \<open>t\<close> rounded to three decimals.
\<close>

lemma js_rem_nonneg:
  assumes "0 \<le> t" and "0 < b"
  shows "js_rem t b = t - b * of_int \<lfloor>t / b\<rfloor>" and "0 \<le> js_rem t b"
proof -
  from assms have q: "0 \<le> t / b" by simp
  then show eq: "js_rem t b = t - b * of_int \<lfloor>t / b\<rfloor>"
    by (simp add: js_rem_def js_trunc_def)
  have "b * of_int \<lfloor>t / b\<rfloor> \<le> b * (t / b)"
    using assms(2) by (intro mult_left_mono) simp_all
  also have "\<dots> = t" using assms(2) by simp
  finally have "b * of_int \<lfloor>t / b\<rfloor> \<le> t" .
  with eq show "0 \<le> js_rem t b" by simp
qed

lemma round_trip_without_carry:
  assumes "0 \<le> t" and "math_round (js_rem t 1 * 1000) < 1000"
  shows "parseTimeString (formatTime (Fin t)) = roundToPrecision (Fin t)"
proof -
  define m where "m = \<lfloor>t / 60\<rfloor>"
  define s where "s = \<lfloor>js_rem t 60\<rfloor>"
  define k where "k = math_round (js_rem t 1 * 1000)"
  have r60: "js_rem t 60 = t - 60 * of_int m" and r60_pos: "0 \<le> js_rem t 60"
    using js_rem_nonneg [OF assms(1), of 60] by (simp_all add: m_def)
  have r1: "js_rem t 1 = t - of_int \<lfloor>t\<rfloor>" and r1_pos: "0 \<le> js_rem t 1"
    using js_rem_nonneg [OF assms(1), of 1] by simp_all
  have m_pos: "0 \<le> m" using assms(1) by (simp add: m_def)
  have s_pos: "0 \<le> s" using r60_pos by (simp add: s_def)
  have k_pos: "0 \<le> k" using r1_pos by (simp add: k_def math_round_def)
  have k_small: "nat k < 1000" using assms(2) k_pos by (simp add: k_def)
  have fmt: "formatTime (Fin t) = string_of_nat (nat m) @ '':'' @ padStart 2 CHR ''0'' (string_of_nat (nat s))
            @ ''.'' @ padStart 3 CHR ''0'' (string_of_nat (nat k))"
    using m_pos s_pos k_pos
    by (simp add: math_floor_def string_of_int_def m_def [symmetric] s_def [symmetric] k_def [symmetric] Let_def)
  have s_eq: "s = \<lfloor>t\<rfloor> - 60 * m"
  proof -
    have "s = \<lfloor>t - of_int (60 * m)\<rfloor>" by (simp add: s_def r60)
    then show ?thesis by (simp only: floor_diff_of_int)
  qed
  have k_eq: "\<lfloor>t * 1000 + 1 / 2\<rfloor> = 1000 * \<lfloor>t\<rfloor> + k"
  proof -
    have "t * 1000 + 1 / 2 = ((t - of_int \<lfloor>t\<rfloor>) * 1000 + 1 / 2) + of_int (1000 * \<lfloor>t\<rfloor>)"
      by (simp add: algebra_simps)
    then have "\<lfloor>t * 1000 + 1 / 2\<rfloor> = \<lfloor>(t - of_int \<lfloor>t\<rfloor>) * 1000 + 1 / 2\<rfloor> + 1000 * \<lfloor>t\<rfloor>"
      by (simp only: floor_add_int)
    then show ?thesis by (simp add: k_def math_round_def r1)
  qed
  have total: "real (nat m) * 60 + real (nat s) + real (nat k) / 1000 = round3 t"
  proof -
    have "real (nat m) = of_int m" "real (nat s) = of_int s" "real (nat k) = of_int k"
      using m_pos s_pos k_pos by simp_all
    then show ?thesis
      by (simp add: round3_def math_round_def k_eq s_eq)
  qed
  show ?thesis
    unfolding fmt using parse_formatted [OF k_small, of "nat m" "nat s"] by (simp add: total)
qed

text \<open>
  Claim C4 at a failing input. For \<open>t = 0.9996\<close> the milliseconds round to 1000 and are
  printed with four digits, without a carry into the seconds: the string is
  \<^verbatim>\<open>0:00.1000\<close>, of which \<^verbatim>\<open>parseTimeString\<close> reads the first three fraction digits and
  returns 0.1, while \<open>t\<close> rounded to three decimals is 1.
\<close>

theorem round_trip_loses_carry:
  "formatTime (Fin (9996 / 10000)) = ''0:00.1000''
   \<and> parseTimeString (formatTime (Fin (9996 / 10000))) = Fin (1 / 10)
   \<and> roundToPrecision (Fin (9996 / 10000)) = Fin 1"
  by code_simp

text \<open>A string that does not split on \<^verbatim>\<open>':'\<close> into exactly two parts parses to 0.\<close>

lemma parse_not_two_parts:
  "length (split_on CHR '':'' txt) \<noteq> 2 \<Longrightarrow> parseTimeString txt = Fin 0"
  by (auto simp: parseTimeString_def split: list.splits)

text \<open>
  Claim C10 at a failing input. A millisecond field without a leading digit makes
  \<^verbatim>\<open>parseTimeString\<close> return \<open>NaN\<close>, not 0: the field is passed to \<^verbatim>\<open>parseInt\<close> without
  the \<^verbatim>\<open>|| 0\<close> that guards the minute and the second field, whose non-numeric values
  count as 0.
\<close>

theorem parse_millisecond_field_NaN:
  "parseTimeString ''0:00.abc'' = NaN
   \<and> parseTimeString ''abc:00.000'' = Fin 0
   \<and> parseTimeString ''0:abc.000'' = Fin 0"
  by code_simp

section \<open>Properties of the LazyResourceLoader\<close>

text \<open>
  The states of two runs of the library, step by step. In both, the card of the one
  video is rendered and becomes visible, so that \<^verbatim>\<open>generateThumbnail\<close> requests its
  thumbnail. In the first run the thumbnail arrives and the parent then passes an empty
  list of videos. In the second run the video is deleted through \<^verbatim>\<open>handleDelete\<close> while
  the thumbnail is still loading, the parent passes the empty list, and the thumbnail
  arrives afterwards.
\<close>

lemmas render_defs = videosChanged_def renderCards_def paginatedVideos_def
  registerCard_def pageEffect_def totalPages_def staleCleanupEffect_def purgeStale_def ITEMS_PER_PAGE_def

lemma shown_eq:
  "videosChanged [movie] emptyLibrary = emptyLibrary\<lparr>videos := [movie], videoCardRefs := [''v1'']\<rparr>"
  by (simp add: render_defs setState_def emptyLibrary_def movie_def)

lemma requested_eq:
  "generateThumbnail movie (videosChanged [movie] emptyLibrary)
     = emptyLibrary\<lparr>videos := [movie], videoCardRefs := [''v1''], requestedThumbnails := {''v1''},
         loadingThumbnails := {''v1''}, thumbRequests := [movie]\<rparr>"
  unfolding shown_eq
  by (simp add: generateThumbnail_def has_thumbnail_def setState_def emptyLibrary_def movie_def Let_def)

lemma cached_eq:
  "thumbnailSettled movie (Some ''data:image'') (generateThumbnail movie (videosChanged [movie] emptyLibrary))
     = emptyLibrary\<lparr>videos := [movie], videoCardRefs := [''v1''], requestedThumbnails := {''v1''},
         thumbnails := [(''v1'', ''data:image'')]\<rparr>"
  unfolding requested_eq
  by (simp add: thumbnailSettled_def generateThumbnail_resume_def setState_def emptyLibrary_def movie_def)

lemma stale_eq: "videosChanged []
     (thumbnailSettled movie (Some ''data:image'') (generateThumbnail movie (videosChanged [movie] emptyLibrary)))
     = emptyLibrary\<lparr>thumbnails := [(''v1'', ''data:image'')]\<rparr>"
  unfolding cached_eq
  by (simp add: render_defs setState_def emptyLibrary_def movie_def)

lemma movie_not_hls: "\<not> isHlsPath (pathOf movie)"
  by code_simp

lemma deleted_eq: "handleDelete movie True (generateThumbnail movie (videosChanged [movie] emptyLibrary))
     = emptyLibrary\<lparr>videos := [movie], loadingThumbnails := {''v1''}, thumbRequests := [movie], deleted := [movie]\<rparr>"
  unfolding requested_eq
  by (simp add: handleDelete_def movie_not_hls clearThumbnailForVideo_def setState_def Let_def)
     (simp add: emptyLibrary_def movie_def)

lemma deleted_removed_eq:
  "videosChanged [] (handleDelete movie True (generateThumbnail movie (videosChanged [movie] emptyLibrary)))
     = emptyLibrary\<lparr>loadingThumbnails := {''v1''}, thumbRequests := [movie], deleted := [movie]\<rparr>"
  unfolding deleted_eq
  by (simp add: render_defs setState_def emptyLibrary_def movie_def)

lemma late_thumbnail_eq:
  "thumbnailSettled movie (Some ''data:image'')
       (videosChanged [] (handleDelete movie True (generateThumbnail movie (videosChanged [movie] emptyLibrary))))
     = emptyLibrary\<lparr>thumbnails := [(''v1'', ''data:image'')], deleted := [movie]\<rparr>"
  unfolding deleted_removed_eq
  by (simp add: thumbnailSettled_def generateThumbnail_resume_def setState_def emptyLibrary_def movie_def)

text \<open>\<^verbatim>\<open>handleDelete\<close> itself, once confirmed for a video that is neither an HLS file nor
  being optimized, removes all three entries and the module's cache entry.\<close>

lemma handleDelete_purges:
  assumes "\<not> isHlsPath (pathOf video)" and "video_id video \<notin> optimizingVideos s" and "mounted s"
  shows "map_of (thumbnails (handleDelete video True s)) (video_id video) = None
    \<and> video_id video \<notin> requestedThumbnails (handleDelete video True s)
    \<and> video_id video \<notin> set (videoCardRefs (handleDelete video True s))
    \<and> video_url video \<notin> thumbnailCache (handleDelete video True s)"
  using assms
  by (simp add: handleDelete_def clearThumbnailForVideo_def setState_def Let_def AList.delete_conv')

text \<open>
  Claim C5 at two failing inputs. When the video leaves the \<^verbatim>\<open>videos\<close> prop with its
  thumbnail cached, the stale-entry effect drops the card and the requested marker but
  keeps the entry of \<^verbatim>\<open>thumbnails\<close>. When the video is deleted while its thumbnail is
  loading, the continuation of \<^verbatim>\<open>generateThumbnail\<close> stores the thumbnail after the
  removal. In both runs the cache entry of the removed video is present at the end.
\<close>

theorem removal_leaves_thumbnail:
  "map_of (thumbnails (videosChanged []
     (thumbnailSettled movie (Some ''data:image'')
        (generateThumbnail movie (videosChanged [movie] emptyLibrary))))) ''v1'' = Some ''data:image''
   \<and> map_of (thumbnails (thumbnailSettled movie (Some ''data:image'')
       (videosChanged [] (handleDelete movie True
          (generateThumbnail movie (videosChanged [movie] emptyLibrary)))))) ''v1'' = Some ''data:image''"
  unfolding stale_eq late_thumbnail_eq by simp

section \<open>Properties of the JobPoller\<close>

text \<open>
  The states of the runs used below, step by step. The job \<open>job1\<close> for the video is
  started at time 0 and its first status request is outstanding. In the first run the
  request fails three times, each retry firing 6 s after the failure, and the fourth
  request is answered with a status that is neither \<^verbatim>\<open>completed\<close> nor \<^verbatim>\<open>failed\<close>. In the
  other runs the component is unmounted while the first request is outstanding, and the
  request is answered afterwards.
\<close>

lemma optimizingLibrary_eq:
  "optimizingLibrary = emptyLibrary\<lparr>videos := [movie], videoCardRefs := [''v1''], optimizingVideos := {''v1''}\<rparr>"
  unfolding optimizingLibrary_def shown_eq by simp

lemma pollingLibrary_eq:
  "pollingLibrary = emptyLibrary\<lparr>videos := [movie], videoCardRefs := [''v1''], optimizingVideos := {''v1''},
     pollingTasks := [(''t1'', \<lparr>timeoutId = 0, aborted = False, retryCount = None\<rparr>)], inflight := [job1]\<rparr>"
  unfolding pollingLibrary_def optimizingLibrary_eq
  by (simp add: pollOptimizeTask_def checkStatus_def job1_def emptyLibrary_def OPTIMIZE_TIMEOUT_def Let_def)

lemmas poll_defs = library_run_def checkStatus_def cleanup_def clearTimeout_def setTimeout_def
  set_timeoutId_def retry_counter_def unmount_def unmountCleanup_def markAborted_def abortTask_def setState_def
  OPTIMIZE_TIMEOUT_def POLL_INTERVAL_def Let_def

lemma three_failures_eq:
  "library_run [Respond job1 RequestFailed, Advance 6000, Fire 1,
                Respond job1 RequestFailed, Advance 6000, Fire 2,
                Respond job1 RequestFailed, Advance 6000, Fire 3] pollingLibrary
   = emptyLibrary\<lparr>videos := [movie], videoCardRefs := [''v1''], optimizingVideos := {''v1''},
       pollingTasks := [(''t1'', \<lparr>timeoutId = 3, aborted = False, retryCount = Some 3\<rparr>)],
       nextTimer := 4, clock := 18000, inflight := [job1]\<rparr>"
  unfolding pollingLibrary_eq
  by (simp add: poll_defs emptyLibrary_def job1_def)

lemma recovered_eq:
  "library_run [Respond job1 RequestFailed, Advance 6000, Fire 1,
                Respond job1 RequestFailed, Advance 6000, Fire 2,
                Respond job1 RequestFailed, Advance 6000, Fire 3,
                Respond job1 (TaskData ''processing'' None)] pollingLibrary
   = emptyLibrary\<lparr>videos := [movie], videoCardRefs := [''v1''], optimizingVideos := {''v1''},
       pollingTasks := [(''t1'', \<lparr>timeoutId = 4, aborted = False, retryCount = Some 3\<rparr>)],
       timers := [(4, 21000, job1)], nextTimer := 5, clock := 18000\<rparr>"
  unfolding pollingLibrary_eq
  by (simp add: poll_defs emptyLibrary_def job1_def)

lemma unmounted_eq:
  "library_run [Unmount] pollingLibrary
     = emptyLibrary\<lparr>mounted := False, videos := [movie], videoCardRefs := [''v1''],
         optimizingVideos := {''v1''}, inflight := [job1]\<rparr>"
  unfolding pollingLibrary_eq
  by (simp add: poll_defs emptyLibrary_def job1_def)

lemma aborted_completed_eq:
  "library_run [Unmount, Respond job1 (TaskData ''completed'' None)] pollingLibrary
     = emptyLibrary\<lparr>mounted := False, videos := [movie], videoCardRefs := [''v1''],
         optimizingVideos := {''v1''}, alerts := [CompletedNotice]\<rparr>"
  unfolding pollingLibrary_eq
  by (simp add: poll_defs emptyLibrary_def job1_def)

lemma aborted_rescheduled_eq:
  "library_run [Unmount, Respond job1 (TaskData ''processing'' None)] pollingLibrary
     = emptyLibrary\<lparr>mounted := False, videos := [movie], videoCardRefs := [''v1''],
         optimizingVideos := {''v1''}, timers := [(1, 3000, job1)], nextTimer := 2\<rparr>"
  unfolding pollingLibrary_eq
  by (simp add: poll_defs emptyLibrary_def job1_def)

lemma aborted_fired_eq:
  "library_run [Unmount, Respond job1 (TaskData ''processing'' None), Advance 3000, Fire 1] pollingLibrary
     = emptyLibrary\<lparr>mounted := False, videos := [movie], videoCardRefs := [''v1''],
         optimizingVideos := {''v1''}, nextTimer := 2, clock := 3000\<rparr>"
  unfolding pollingLibrary_eq
  by (simp add: poll_defs emptyLibrary_def job1_def)

text \<open>
  The unmount cleanup itself works as far as the registry reaches: when every pending
  timer is recorded by a registered task, no timer and no task is left, and without a
  timer nothing fires.
\<close>

lemma timers_abortTask: "timers (abortTask kt s) = cancelRecorded kt (timers s)"
  by (simp add: abortTask_def cancelRecorded_def clearTimeout_def Let_def)

lemma timers_fold_abortTask: "timers (fold abortTask xs s) = fold cancelRecorded xs (timers s)"
  by (induction xs arbitrary: s) (simp_all add: timers_abortTask)

lemma keys_fold_cancelRecorded:
  "fst ` set (fold cancelRecorded xs ts)
     = fst ` set ts - {tid. tid \<noteq> 0 \<and> (\<exists>kt \<in> set xs. timeoutId (snd kt) = tid)}"
proof (induction xs arbitrary: ts)
  case Nil
  then show ?case by simp
next
  case (Cons kt xs)
  have "fst ` set (cancelRecorded kt ts)
      = fst ` set ts - {tid. tid \<noteq> 0 \<and> timeoutId (snd kt) = tid}"
    by (auto simp: cancelRecorded_def AList.delete_eq)
  with Cons.IH [of "cancelRecorded kt ts"] show ?case by auto
qed

lemma unmount_cancels_recorded_timers:
  assumes "\<forall>t \<in> set (timers s). fst t \<noteq> 0 \<and> (\<exists>kt \<in> set (pollingTasks s). timeoutId (snd kt) = fst t)"
  shows "timers (unmount s) = [] \<and> pollingTasks (unmount s) = []"
proof -
  have "fst ` set (timers (markAborted s)) = {}"
    unfolding markAborted_def timers_fold_abortTask keys_fold_cancelRecorded
    using assms by auto
  then show ?thesis by (simp add: unmount_def unmountCleanup_def)
qed

lemma no_timer_no_fire: "timers s = [] \<Longrightarrow> library_step (Fire tid) s = s"
  by simp

text \<open>A check for a task that is not registered issues no request and raises no alert.\<close>

lemma checkStatus_unregistered:
  "map_of (pollingTasks s) (job_taskId j) = None \<Longrightarrow>
     inflight (checkStatus j s) = inflight s \<and> alerts (checkStatus j s) = alerts s
     \<and> timers (checkStatus j s) = timers s \<and> pollingTasks (checkStatus j s) = AList.delete (job_taskId j) (pollingTasks s)"
  by (simp add: checkStatus_def cleanup_def setState_def Let_def)

text \<open>
  Claim C1, as stated, fails on its last part. After three failed requests and one
  successful response with a non-terminal status the job is still registered, but its
  retry counter is 3, not 0: the code never resets it.
\<close>

theorem retry_counter_not_reset:
  "map_of (pollingTasks
      (library_run [Respond job1 RequestFailed, Advance 6000, Fire 1,
                    Respond job1 RequestFailed, Advance 6000, Fire 2,
                    Respond job1 RequestFailed, Advance 6000, Fire 3,
                    Respond job1 (TaskData ''processing'' None)] pollingLibrary)) ''t1''
     = Some \<lparr>timeoutId = 4, aborted = False, retryCount = Some 3\<rparr>
   \<and> retry_counter
      (library_run [Respond job1 RequestFailed, Advance 6000, Fire 1,
                    Respond job1 RequestFailed, Advance 6000, Fire 2,
                    Respond job1 RequestFailed, Advance 6000, Fire 3,
                    Respond job1 (TaskData ''processing'' None)] pollingLibrary) ''t1'' \<noteq> 0"
  unfolding recovered_eq by (simp add: retry_counter_def)

text \<open>
  Claim C1, amended. For a registered job of a mounted library: a failed request while
  the retry counter is below 3 increments the counter and schedules a retry after 6 s,
  twice the polling interval, and changes neither the alerts nor the optimizing marker;
  a failed request at counter 3 or above raises the query-failed alert and tears the job
  down (registry entry, optimizing marker, recorded timer); a successful response with a
  non-terminal status keeps the job registered, schedules the next check after 3 s and
  leaves the retry counter unchanged. So three consecutive failures followed by such a
  response leave the job polling, with the next check pending and the retry counter
  at 3.
\<close>

theorem retry_policy:
  assumes "map_of (pollingTasks s) (job_taskId j) = Some task" and "mounted s"
  shows "(retry_counter s (job_taskId j) < 3 \<longrightarrow>
            retry_counter (checkStatus_resume j RequestFailed s) (job_taskId j)
                = retry_counter s (job_taskId j) + 1
            \<and> timers (checkStatus_resume j RequestFailed s)
                = timers s @ [(nextTimer s, clock s + 6000, j)]
            \<and> map_of (pollingTasks (checkStatus_resume j RequestFailed s)) (job_taskId j)
                = Some (task\<lparr>retryCount := Some (retry_counter s (job_taskId j) + 1), timeoutId := nextTimer s\<rparr>)
            \<and> alerts (checkStatus_resume j RequestFailed s) = alerts s
            \<and> optimizingVideos (checkStatus_resume j RequestFailed s) = optimizingVideos s)
       \<and> (3 \<le> retry_counter s (job_taskId j) \<longrightarrow>
            alerts (checkStatus_resume j RequestFailed s) = alerts s @ [QueryFailedNotice]
            \<and> map_of (pollingTasks (checkStatus_resume j RequestFailed s)) (job_taskId j) = None
            \<and> optimizingVideos (checkStatus_resume j RequestFailed s) = optimizingVideos s - {job_videoId j}
            \<and> timers (checkStatus_resume j RequestFailed s)
                = (if timeoutId task \<noteq> 0 then AList.delete (timeoutId task) (timers s) else timers s))
       \<and> (status \<noteq> ''completed'' \<and> status \<noteq> ''failed'' \<longrightarrow>
            map_of (pollingTasks (checkStatus_resume j (TaskData status err) s)) (job_taskId j)
                = Some (task\<lparr>timeoutId := nextTimer s\<rparr>)
            \<and> timers (checkStatus_resume j (TaskData status err) s)
                = timers s @ [(nextTimer s, clock s + 3000, j)]
            \<and> retry_counter (checkStatus_resume j (TaskData status err) s) (job_taskId j)
                = retry_counter s (job_taskId j)
            \<and> alerts (checkStatus_resume j (TaskData status err) s) = alerts s
            \<and> optimizingVideos (checkStatus_resume j (TaskData status err) s) = optimizingVideos s)
       \<and> library_run [Respond job1 RequestFailed, Advance 6000, Fire 1,
                       Respond job1 RequestFailed, Advance 6000, Fire 2,
                       Respond job1 RequestFailed, Advance 6000, Fire 3,
                       Respond job1 (TaskData ''processing'' None)] pollingLibrary
            = pollingLibrary\<lparr>pollingTasks := [(''t1'', \<lparr>timeoutId = 4, aborted = False, retryCount = Some 3\<rparr>)],
                timers := [(4, 21000, job1)], nextTimer := 5, clock := 18000, inflight := []\<rparr>"
proof -
  have scenario: "library_run [Respond job1 RequestFailed, Advance 6000, Fire 1,
                       Respond job1 RequestFailed, Advance 6000, Fire 2,
                       Respond job1 RequestFailed, Advance 6000, Fire 3,
                       Respond job1 (TaskData ''processing'' None)] pollingLibrary
            = pollingLibrary\<lparr>pollingTasks := [(''t1'', \<lparr>timeoutId = 4, aborted = False, retryCount = Some 3\<rparr>)],
                timers := [(4, 21000, job1)], nextTimer := 5, clock := 18000, inflight := []\<rparr>"
    unfolding recovered_eq unfolding pollingLibrary_eq by (simp add: emptyLibrary_def)
  show ?thesis
    using assms scenario
    by (auto simp: setTimeout_def set_timeoutId_def cleanup_def clearTimeout_def retry_counter_def
          setState_def POLL_INTERVAL_def Let_def AList.update_conv' AList.delete_conv')
qed

theorem retry_policy_witness:
  "retry_counter (checkStatus_resume job1 RequestFailed pollingLibrary) ''t1'' = 1
   \<and> timers (checkStatus_resume job1 RequestFailed pollingLibrary) = [(1, 6000, job1)]
   \<and> alerts (checkStatus_resume job1 RequestFailed
        (pollingLibrary\<lparr>pollingTasks := [(''t1'', \<lparr>timeoutId = 3, aborted = False, retryCount = Some 3\<rparr>)]\<rparr>))
        = [QueryFailedNotice]
   \<and> map_of (pollingTasks (checkStatus_resume job1 RequestFailed
        (pollingLibrary\<lparr>pollingTasks := [(''t1'', \<lparr>timeoutId = 3, aborted = False, retryCount = Some 3\<rparr>)]\<rparr>)))
        ''t1'' = None
   \<and> timers (checkStatus_resume job1 (TaskData ''processing'' None) pollingLibrary) = [(1, 3000, job1)]
   \<and> retry_counter (checkStatus_resume job1 (TaskData ''processing'' None) pollingLibrary) ''t1'' = 0"
proof -
  let ?t0 = "\<lparr>timeoutId = 0, aborted = False, retryCount = None\<rparr>"
  let ?t3 = "\<lparr>timeoutId = 3, aborted = False, retryCount = Some 3\<rparr>"
  let ?s3 = "pollingLibrary\<lparr>pollingTasks := [(''t1'', ?t3)]\<rparr>"
  have id: "job_taskId job1 = ''t1''" by (simp add: job1_def)
  have live0: "map_of (pollingTasks pollingLibrary) (job_taskId job1) = Some ?t0"
    unfolding pollingLibrary_eq by (simp add: job1_def)
  have facts0: "retry_counter pollingLibrary ''t1'' = 0 \<and> timers pollingLibrary = []
      \<and> nextTimer pollingLibrary = 1 \<and> clock pollingLibrary = 0 \<and> alerts pollingLibrary = []
      \<and> mounted pollingLibrary"
    unfolding pollingLibrary_eq by (simp add: retry_counter_def emptyLibrary_def)
  have live3: "map_of (pollingTasks ?s3) (job_taskId job1) = Some ?t3"
    by (simp add: job1_def)
  have facts3: "retry_counter ?s3 ''t1'' = 3 \<and> alerts ?s3 = [] \<and> mounted ?s3"
    unfolding pollingLibrary_eq by (simp add: retry_counter_def emptyLibrary_def)
  from facts0 have m0: "mounted pollingLibrary" by simp
  from facts3 have m3: "mounted ?s3" by simp
  from retry_policy [OF live0 m0, of "''processing''" None] facts0
  have a: "retry_counter (checkStatus_resume job1 RequestFailed pollingLibrary) ''t1'' = 1
      \<and> timers (checkStatus_resume job1 RequestFailed pollingLibrary) = [(1, 6000, job1)]
      \<and> timers (checkStatus_resume job1 (TaskData ''processing'' None) pollingLibrary) = [(1, 3000, job1)]
      \<and> retry_counter (checkStatus_resume job1 (TaskData ''processing'' None) pollingLibrary) ''t1'' = 0"
    by (simp add: id)
  from retry_policy [OF live3 m3, of "''processing''" None] facts3
  have b: "alerts (checkStatus_resume job1 RequestFailed ?s3) = [QueryFailedNotice]
      \<and> map_of (pollingTasks (checkStatus_resume job1 RequestFailed ?s3)) ''t1'' = None"
    by (simp add: id)
  from a b show ?thesis by simp
qed

text \<open>
  Claim C2 at a failing input. Unmounting while the first status request is outstanding
  empties the registry and leaves no timer and no alert. When the request is then
  answered with \<^verbatim>\<open>completed\<close>, the continuation of \<^verbatim>\<open>checkStatus\<close> raises the completion
  alert. When it is answered with a non-terminal status, the continuation schedules a
  new check that no registry entry records, and 3 s later that timer fires and runs
  \<^verbatim>\<open>checkStatus\<close>. The registry and the abort flag are tested only at the top of
  \<^verbatim>\<open>checkStatus\<close>, not after the \<^verbatim>\<open>await\<close>.
\<close>

theorem response_after_unmount_acts:
  "pollingTasks (library_run [Unmount] pollingLibrary) = []
   \<and> timers (library_run [Unmount] pollingLibrary) = []
   \<and> alerts (library_run [Unmount] pollingLibrary) = []
   \<and> alerts (library_run [Unmount, Respond job1 (TaskData ''completed'' None)] pollingLibrary)
        = [CompletedNotice]
   \<and> timers (library_run [Unmount, Respond job1 (TaskData ''processing'' None)] pollingLibrary)
        = [(1, 3000, job1)]
   \<and> library_run [Unmount, Respond job1 (TaskData ''processing'' None), Advance 3000, Fire 1] pollingLibrary
        = checkStatus job1
            ((library_run [Unmount, Respond job1 (TaskData ''processing'' None), Advance 3000] pollingLibrary)
               \<lparr>timers := []\<rparr>)"
proof -
  have fired: "library_run [Unmount, Respond job1 (TaskData ''processing'' None), Advance 3000, Fire 1] pollingLibrary
        = checkStatus job1
            ((library_run [Unmount, Respond job1 (TaskData ''processing'' None), Advance 3000] pollingLibrary)
               \<lparr>timers := []\<rparr>)"
    unfolding pollingLibrary_eq
    by (simp add: poll_defs emptyLibrary_def job1_def)
  show ?thesis
    unfolding unmounted_eq aborted_completed_eq aborted_rescheduled_eq
    using fired by (simp add: emptyLibrary_def)
qed

end
